theory Spec2Isabelle
  imports Complex_Main "HOL-Library.Sublist"
begin

section \<open>Python values used by the services\<close>

text \<open>
  A Python \<open>str\<close> is a list of code points; \<^typ>\<open>char\<close> covers the code points below
  256, so the model is exact for Latin-1 text. \<open>len\<close> is \<^const>\<open>length\<close>, \<open>s[:n]\<close> is
  \<^const>\<open>take\<close>, \<open>a in b\<close> on strings is \<^const>\<open>sublist\<close>. An exception is a value.
\<close>

datatype exn = Exception string

text \<open>\<open>str.isspace\<close> on the code points below 256.\<close>

definition isspace :: "char \<Rightarrow> bool" where
  "isspace c = (let n = of_char c :: nat in
     (9 \<le> n \<and> n \<le> 13) \<or> (28 \<le> n \<and> n \<le> 32) \<or> n = 133 \<or> n = 160)"

definition strip :: "string \<Rightarrow> string" where
  "strip s = rev (dropWhile isspace (rev (dropWhile isspace s)))"

text \<open>\<open>str.lower\<close> on the code points below 256: A-Z and the accented capitals.\<close>

definition lower_char :: "char \<Rightarrow> char" where
  "lower_char c = (let n = of_char c :: nat in
     if (65 \<le> n \<and> n \<le> 90) \<or> (192 \<le> n \<and> n \<le> 222 \<and> n \<noteq> 215) then char_of (n + 32) else c)"

definition lower :: "string \<Rightarrow> string" where
  "lower s = map lower_char s"

text \<open>\<open>sep.join(parts)\<close>.\<close>

fun join :: "string \<Rightarrow> string list \<Rightarrow> string" where
  "join sep [] = []"
| "join sep [p] = p"
| "join sep (p # q # ps) = p @ sep @ join sep (q # ps)"

text \<open>\<open>str(n)\<close> for a length: the decimal digits.\<close>

fun str_nat :: "nat \<Rightarrow> string" where
  "str_nat n = (if n < 10 then [char_of (48 + n)] else str_nat (n div 10) @ [char_of (48 + n mod 10)])"

declare str_nat.simps [simp del]

definition apos :: string where
  "apos = [CHR 0x27]"

text \<open>
  JSON values, as \<open>json.loads\<close> returns them and as the metadata of a document holds
  them. Numbers are integers here. \<open>truthy\<close> is Python's truth value of such a value.
\<close>

datatype json = JNull | JBool bool | JInt int | JStr string | JList "json list"
  | JDict "(string \<times> json) list"

fun truthy :: "json \<Rightarrow> bool" where
  "truthy JNull = False"
| "truthy (JBool b) = b"
| "truthy (JInt i) = (i \<noteq> 0)"
| "truthy (JStr s) = (s \<noteq> [])"
| "truthy (JList xs) = (xs \<noteq> [])"
| "truthy (JDict kvs) = (kvs \<noteq> [])"

text \<open>
  The two library functions the services call on metadata: \<open>json.loads\<close> (\<open>None\<close> when it
  raises) and the text an f-string gives a value. Both are parameters of the model.
\<close>

record pylib =
  json_loads :: "string \<Rightarrow> json option"
  format_json :: "json \<Rightarrow> string"

section \<open>The search index\<close>

text \<open>
  One entry of the index, with the fields \<open>index_document_in_search\<close> writes.
\<close>

record index_entry =
  e_id :: string
  e_title :: string
  e_content :: string
  e_document_id :: string
  e_document_name :: string
  e_user_id :: string
  e_metadata :: json
  e_created_at :: string
  e_content_vector :: "real list option"

text \<open>
  The search service is an external collaborator. It receives the filter as text and
  reads it itself; its model follows section 4.3 of the specification. The expressions
  it reads are those of the filter language that the source writes: an equality
  \<open>field eq 'value'\<close> (inside a value, two apostrophes stand for one), \<open>and\<close>, \<open>or\<close> with \<open>and\<close>
  binding tighter, and parentheses, each separated by one blank.
\<close>

datatype odata = Eq string string | Or_join "odata list" | And_join "odata list"

definition is_ident :: "char \<Rightarrow> bool" where
  "is_ident c = (let n = of_char c :: nat in
     (48 \<le> n \<and> n \<le> 57) \<or> (65 \<le> n \<and> n \<le> 90) \<or> (97 \<le> n \<and> n \<le> 122) \<or> n = 95)"

text \<open>The value of a text literal after its opening apostrophe, and what follows the literal.\<close>

fun parse_value :: "string \<Rightarrow> (string \<times> string) option" where
  "parse_value [] = None"
| "parse_value [c] = (if c = CHR 0x27 then Some ([], []) else None)"
| "parse_value (c # d # cs) =
     (if c = CHR 0x27
      then (if d = CHR 0x27
            then map_option (\<lambda>(v, r). (c # v, r)) (parse_value cs)
            else Some ([], d # cs))
      else map_option (\<lambda>(v, r). (c # v, r)) (parse_value (d # cs)))"

definition parse_clause :: "string \<Rightarrow> (odata \<times> string) option" where
  "parse_clause s =
     (let f = takeWhile is_ident s; r = dropWhile is_ident s
      in if f \<noteq> [] \<and> prefix ('' eq '' @ apos) r
         then (case parse_value (drop 5 r) of
                 None \<Rightarrow> None
               | Some (v, rest) \<Rightarrow> Some (Eq f v, rest))
         else None)"

definition conjunction :: "odata list \<Rightarrow> odata" where
  "conjunction cs = (case cs of [c] \<Rightarrow> c | _ \<Rightarrow> And_join cs)"

definition disjunction :: "odata list \<Rightarrow> odata" where
  "disjunction ds = (case ds of [d] \<Rightarrow> d | _ \<Rightarrow> Or_join ds)"

text \<open>
  The reader, by recursive descent. The first argument bounds the depth of the calls;
  \<open>parse_filter\<close> gives a bound that every text stays below, since three nested calls
  read at least one character.
\<close>

fun parse_primary :: "nat \<Rightarrow> string \<Rightarrow> (odata \<times> string) option"
  and parse_and :: "nat \<Rightarrow> string \<Rightarrow> (odata list \<times> string) option"
  and parse_or :: "nat \<Rightarrow> string \<Rightarrow> (odata list \<times> string) option" where
  "parse_primary 0 s = None"
| "parse_primary (Suc n) s =
     (case s of
        [] \<Rightarrow> None
      | c # r \<Rightarrow>
          if c = CHR ''(''
          then (case parse_or n r of
                  None \<Rightarrow> None
                | Some (ds, r') \<Rightarrow>
                    (case r' of
                       [] \<Rightarrow> None
                     | c' # r'' \<Rightarrow> if c' = CHR '')'' then Some (disjunction ds, r'') else None))
          else parse_clause s)"
| "parse_and 0 s = None"
| "parse_and (Suc n) s =
     (case parse_primary n s of
        None \<Rightarrow> None
      | Some (p, r) \<Rightarrow>
          if prefix '' and '' r
          then (case parse_and n (drop 5 r) of
                  None \<Rightarrow> None
                | Some (ps, r') \<Rightarrow> Some (p # ps, r'))
          else Some ([p], r))"
| "parse_or 0 s = None"
| "parse_or (Suc n) s =
     (case parse_and n s of
        None \<Rightarrow> None
      | Some (cs, r) \<Rightarrow>
          if prefix '' or '' r
          then (case parse_or n (drop 4 r) of
                  None \<Rightarrow> None
                | Some (ds, r') \<Rightarrow> Some (conjunction cs # ds, r'))
          else Some ([conjunction cs], r))"

definition parse_filter :: "string \<Rightarrow> odata option" where
  "parse_filter text =
     (case parse_or (3 * length text + 3) text of
        None \<Rightarrow> None
      | Some (ds, rest) \<Rightarrow> if rest = [] then Some (disjunction ds) else None)"

definition field_value :: "index_entry \<Rightarrow> string \<Rightarrow> string option" where
  "field_value e f =
     (if f = ''user_id'' then Some (e_user_id e)
      else if f = ''document_id'' then Some (e_document_id e)
      else if f = ''id'' then Some (e_id e)
      else if f = ''title'' then Some (e_title e)
      else if f = ''document_name'' then Some (e_document_name e)
      else None)"

text \<open>
  The filter is evaluated on the server, entry by entry; the matching entries are ranked
  by a score for the query and the best \<open>top_n\<close> (the parameter \<open>top\<close> of the call) are
  returned, each with its score and its highlights. A service that is down raises, and
  so does a filter that the service cannot read.
\<close>

fun holds :: "index_entry \<Rightarrow> odata \<Rightarrow> bool" where
  "holds e (Eq f v) = (field_value e f = Some v)"
| "holds e (Or_join cs) = list_ex (holds e) cs"
| "holds e (And_join ps) = list_all (holds e) ps"

record search_backend =
  entries :: "index_entry list"
  score_of :: "string \<Rightarrow> index_entry \<Rightarrow> real"
  highlights_of :: "string \<Rightarrow> index_entry \<Rightarrow> string list option"
  down :: bool

record hit =
  hit_entry :: index_entry
  hit_score :: real
  hit_highlights :: "string list option"

definition search :: "search_backend \<Rightarrow> string \<Rightarrow> nat \<Rightarrow> string \<Rightarrow> exn + hit list" where
  "search b search_text top_n filter_text =
     (if down b then Inl (Exception ''search service unavailable'')
      else case parse_filter filter_text of
             None \<Rightarrow> Inl (Exception ''invalid filter expression'')
           | Some flt \<Rightarrow>
               Inr (map (\<lambda>e. \<lparr>hit_entry = e, hit_score = score_of b search_text e,
                                hit_highlights = highlights_of b search_text e\<rparr>)
                      (take top_n (rev (sort_key (score_of b search_text)
                         (filter (\<lambda>e. holds e flt) (entries b)))))))"

section \<open>AIService: retrieval\<close>

record search_result =
  r_id :: string
  r_title :: string
  r_content :: string
  r_document_id :: string
  r_document_name :: string
  r_score :: real
  r_highlights :: "string list"
  r_metadata :: json

definition fallback_search :: "string \<Rightarrow> string \<Rightarrow> nat \<Rightarrow> string list option \<Rightarrow> search_result list" where
  "fallback_search query user_id limit document_ids = []"

text \<open>
  The test \<open>document_ids and len(document_ids) > 0\<close>: the subset, when one was given and
  is not empty.
\<close>

definition selected :: "string list option \<Rightarrow> string list option" where
  "selected document_ids =
     (case document_ids of None \<Rightarrow> None
      | Some ds \<Rightarrow> if ds \<noteq> [] \<and> length ds > 0 then Some ds else None)"

text \<open>
  The filter text of \<open>search_documents\<close>: the ids are put between apostrophes as they are,
  the equalities of the document ids are joined by \<open>or\<close> inside parentheses, and the parts
  are joined by \<open>and\<close>.
\<close>

definition search_filter :: "string \<Rightarrow> string list option \<Rightarrow> string" where
  "search_filter user_id document_ids =
     (let filter_parts = [''user_id eq '' @ apos @ user_id @ apos];
          filter_parts = (case selected document_ids of
             Some ds \<Rightarrow>
               (let document_id_filters =
                      join '' or '' (map (\<lambda>doc_id. ''document_id eq '' @ apos @ doc_id @ apos) ds)
                in filter_parts @ [''('' @ document_id_filters @ '')''])
           | None \<Rightarrow> filter_parts)
      in join '' and '' filter_parts)"

text \<open>
  One result. The source reads the highlights only when the result has an attribute
  named \<open>@search.highlights\<close>; a result is a dict and has no such attribute, so the
  highlights of every result are empty.
\<close>

definition to_result :: "hit \<Rightarrow> search_result" where
  "to_result h =
     \<lparr>r_id = e_id (hit_entry h), r_title = e_title (hit_entry h),
      r_content = e_content (hit_entry h), r_document_id = e_document_id (hit_entry h),
      r_document_name = e_document_name (hit_entry h), r_score = hit_score h,
      r_highlights = [],
      r_metadata = e_metadata (hit_entry h)\<rparr>"

definition search_documents ::
  "search_backend option \<Rightarrow> string \<Rightarrow> string \<Rightarrow> nat \<Rightarrow> string list option \<Rightarrow> search_result list" where
  "search_documents search_client query user_id limit document_ids =
     (case search_client of
        None \<Rightarrow> fallback_search query user_id limit document_ids
      | Some client \<Rightarrow>
          (case search client query limit (search_filter user_id document_ids) of
             Inl e \<Rightarrow> fallback_search query user_id limit document_ids
           | Inr hits \<Rightarrow> map to_result hits))"

section \<open>AIService: context, history, sources\<close>

text \<open>The metadata of a result: parsed when it is text, an empty dict when parsing raises.\<close>

definition parse_metadata :: "pylib \<Rightarrow> json \<Rightarrow> json" where
  "parse_metadata lib metadata =
     (case metadata of
        JStr s \<Rightarrow> (case json_loads lib s of None \<Rightarrow> JDict [] | Some v \<Rightarrow> v)
      | _ \<Rightarrow> metadata)"

text \<open>\<open>isinstance(metadata, dict) and metadata.get("page")\<close>: the page, when that test passes.\<close>

definition page_of :: "json \<Rightarrow> json option" where
  "page_of metadata =
     (case metadata of
        JDict kvs \<Rightarrow> (case map_of kvs ''page'' of
                        Some p \<Rightarrow> if truthy p then Some p else None
                      | None \<Rightarrow> None)
      | _ \<Rightarrow> None)"

definition context_part :: "pylib \<Rightarrow> search_result \<Rightarrow> string" where
  "context_part lib result =
     ''Document: '' @ r_document_name result @ ''\<newline>'' @
     ''Content: '' @ r_content result @ ''\<newline>'' @
     (if truthy (r_metadata result)
      then (case page_of (parse_metadata lib (r_metadata result)) of
              Some p \<Rightarrow> ''Source: Page '' @ format_json lib p @ ''\<newline>''
            | None \<Rightarrow> [])
      else [])"

definition build_context_from_search :: "pylib \<Rightarrow> search_result list \<Rightarrow> string list option \<Rightarrow> string" where
  \<open>build_context_from_search lib search_results document_ids =
     (if search_results = [] then
        (case selected document_ids of
           Some ds \<Rightarrow> ''No relevant content found in the selected '' @ str_nat (length ds) @
                      '' document(s). The selected documents may not contain information related to the query.''
         | None \<Rightarrow> ''No relevant documents found in your document library.'')
      else join ''\<newline>---\<newline>'' (map (context_part lib) search_results))\<close>

text \<open>A row of \<open>chat_messages\<close>, and a citation attached to an assistant message.\<close>

datatype uuid = UUID nat

record source =
  src_document_id :: string
  src_document_name :: string
  src_relevance_score :: real
  src_snippet :: string
  src_page_number :: "json option"

record chat_message =
  m_id :: uuid
  m_session_id :: uuid
  m_role :: string
  m_content :: string
  m_sources :: "source list option"
  m_created_at :: nat

record llm_message =
  lm_role :: string
  lm_content :: string

definition build_conversation_history :: "chat_message list \<Rightarrow> llm_message list" where
  "build_conversation_history chat_history =
     (let recent_messages = (if length chat_history > 10
                             then drop (length chat_history - 10) chat_history
                             else chat_history)
      in map (\<lambda>message. \<lparr>lm_role = m_role message, lm_content = m_content message\<rparr>) recent_messages)"

definition extract_sources_from_search :: "pylib \<Rightarrow> search_result list \<Rightarrow> source list" where
  "extract_sources_from_search lib search_results =
     map (\<lambda>result.
            \<lparr>src_document_id = r_document_id result,
             src_document_name = r_document_name result,
             src_relevance_score = r_score result,
             src_snippet = (if length (r_content result) > 200
                            then take 200 (r_content result) @ ''...''
                            else r_content result),
             src_page_number = page_of (parse_metadata lib (r_metadata result))\<rparr>)
         search_results"

section \<open>AIService: completion and its fallback\<close>

text \<open>The four answers of \<open>_generate_fallback_openai_response\<close>.\<close>

definition greeting_answer :: string where
  \<open>greeting_answer = ''Hello! I'm your AI assistant. I can help you find information in your uploaded documents and answer questions based on them. Please upload some documents first, then ask me questions about their content.''\<close>

definition selected_empty_answer :: "string \<Rightarrow> string" where
  \<open>selected_empty_answer user_message = ''I searched through the selected document(s) but couldn't find information related to your question about '' @ apos @ user_message @ apos @ ''. The selected documents may not contain the information you're looking for. You might want to try selecting different documents or ask a different question.''\<close>

definition library_empty_answer :: "string \<Rightarrow> string" where
  \<open>library_empty_answer user_message = ''I couldn't find relevant information in your documents about '' @ apos @ user_message @ apos @ ''. Based on the available context, I can help you with questions about company policies, procedures, and other document content. Could you provide more specific details about what you're looking for, or try selecting different documents?''\<close>

definition some_context_answer :: "string \<Rightarrow> string" where
  \<open>some_context_answer user_message = ''Based on the information in your selected documents, I found some context about '' @ apos @ user_message @ apos @ ''. However, I may not have all the details. Please review the document sources provided below for more complete information.''\<close>

definition generate_fallback_openai_response :: "string \<Rightarrow> string \<Rightarrow> string" where
  "generate_fallback_openai_response user_message context =
     (if sublist ''hello'' (lower user_message) \<or> sublist ''hi'' (lower user_message)
      then greeting_answer
      else if sublist ''No relevant content found in the selected'' context
      then selected_empty_answer user_message
      else if sublist ''No relevant documents found'' context
      then library_empty_answer user_message
      else some_context_answer user_message)"

text \<open>
  The completion service is an external collaborator: a call raises or returns the
  contents of the choices of the response (a content may be \<open>None\<close>).
\<close>

record openai_backend =
  complete :: "llm_message list \<Rightarrow> exn + string option list"

definition system_prompt :: "string \<Rightarrow> string list option \<Rightarrow> string" where
  \<open>system_prompt context document_ids =
     (let document_context_note =
        (case selected document_ids of
           Some ds \<Rightarrow> ''\<newline>IMPORTANT: The user has specifically selected '' @ str_nat (length ds) @ '' document(s) to search. You MUST answer based ONLY on information from these selected documents. Do NOT ask which document the user is referring to - they have already selected specific documents.''
         | None \<Rightarrow> [])
      in
      ''You are an AI assistant for an enterprise document management system. \<newline>            Use the following context from the user's documents to answer their question accurately and helpfully.\<newline>            '' @
      document_context_note @
      ''\<newline>            \<newline>            Context from documents:\<newline>            '' @
      context @
      ''\<newline>            \<newline>            Instructions:\<newline>            - Answer based ONLY on the provided context from the selected documents\<newline>            - If documents were selected by the user, you already know which documents to use - do NOT ask the user to specify which document\<newline>            - If the context indicates no relevant information was found in the selected documents, clearly state: "I couldn't find information about your question in the selected document(s)."\<newline>            - Be concise and professional\<newline>            - Always cite the specific document name when referencing information (the document name is provided in the context)\<newline>            - If the context shows document names, use those names in your response\<newline>            - Never ask "which document are you referring to" if documents have been selected\<newline>            '')\<close>

text \<open>The \<open>messages\<close> list sent to the completion service.\<close>

definition completion_messages ::
  "string \<Rightarrow> string \<Rightarrow> llm_message list \<Rightarrow> string list option \<Rightarrow> llm_message list" where
  "completion_messages user_message context conversation document_ids =
     [\<lparr>lm_role = ''system'', lm_content = system_prompt context document_ids\<rparr>] @
     map (\<lambda>msg. \<lparr>lm_role = lm_role msg, lm_content = lm_content msg\<rparr>)
         (drop (length conversation - 10) conversation) @
     [\<lparr>lm_role = ''user'', lm_content = user_message\<rparr>]"

text \<open>
  \<open>_generate_openai_response\<close>. An unconfigured client, a raising call and an empty list
  of choices (\<open>choices[0]\<close> raises) all end in the fallback; otherwise the content of the
  first choice is returned as it is.
\<close>

definition generate_openai_response ::
  "openai_backend option \<Rightarrow> string \<Rightarrow> string \<Rightarrow> llm_message list \<Rightarrow> string list option \<Rightarrow> string option" where
  "generate_openai_response openai_client user_message context conversation document_ids =
     (case openai_client of
        None \<Rightarrow> Some (generate_fallback_openai_response user_message context)
      | Some client \<Rightarrow>
          (case complete client (completion_messages user_message context conversation document_ids) of
             Inl e \<Rightarrow> Some (generate_fallback_openai_response user_message context)
           | Inr [] \<Rightarrow> Some (generate_fallback_openai_response user_message context)
           | Inr (ai_response # _) \<Rightarrow> ai_response))"

section \<open>AIService: one answer\<close>

record services =
  search_client :: "search_backend option"
  openai_client :: "openai_backend option"
  lib :: pylib

record ai_response =
  ar_content :: "string option"
  ar_sources :: "source list"

definition generate_fallback_response :: "string \<Rightarrow> ai_response" where
  \<open>generate_fallback_response user_message =
     \<lparr>ar_content = Some ''I apologize, but I'm having trouble accessing the AI services right now. Please try again later, or contact support if the issue persists.'',
      ar_sources = []\<rparr>\<close>

text \<open>
  \<open>generate_chat_response\<close>. Every step it calls handles its own failures and the values
  of the model have the types the steps expect, so the handler that would answer with
  \<open>generate_fallback_response\<close> is never entered here.
\<close>

definition generate_chat_response ::
  "services \<Rightarrow> string \<Rightarrow> chat_message list \<Rightarrow> string \<Rightarrow> string list option \<Rightarrow> ai_response option" where
  "generate_chat_response env user_message chat_history user_id document_ids =
     (let search_results = search_documents (search_client env) user_message user_id 5 document_ids;
          context = build_context_from_search (lib env) search_results document_ids;
          conversation = build_conversation_history chat_history;
          ai_response = generate_openai_response (openai_client env) user_message context
                          conversation document_ids;
          sources = extract_sources_from_search (lib env) search_results
      in Some \<lparr>ar_content = ai_response, ar_sources = sources\<rparr>)"

section \<open>The relational store\<close>

text \<open>
  \<open>str(uuid)\<close>: 32 hexadecimal digits in groups of 8, 4, 4, 4 and 12.
\<close>

definition hex_char :: "nat \<Rightarrow> char" where
  "hex_char d = (if d < 10 then char_of (48 + d) else char_of (87 + d))"

fun hex_digits :: "nat \<Rightarrow> nat \<Rightarrow> string" where
  "hex_digits 0 n = []"
| "hex_digits (Suc k) n = hex_digits k (n div 16) @ [hex_char (n mod 16)]"

fun str_uuid :: "uuid \<Rightarrow> string" where
  "str_uuid (UUID n) =
     (let h = hex_digits 32 n
      in take 8 h @ ''-'' @ take 4 (drop 8 h) @ ''-'' @ take 4 (drop 12 h) @ ''-'' @
         take 4 (drop 16 h) @ ''-'' @ drop 20 h)"

record chat_session =
  s_id :: uuid
  s_user_id :: uuid
  s_title :: string
  s_created_at :: nat
  s_updated_at :: nat

record document =
  d_id :: uuid
  d_user_id :: uuid
  d_name :: string
  d_original_name :: string
  d_file_type :: string
  d_file_size :: nat
  d_storage_path :: string
  d_status :: string
  d_content :: "string option"
  d_doc_metadata :: "json option"
  d_created_at :: nat
  d_updated_at :: nat

text \<open>
  The tables, in insertion order. \<open>clock\<close> is what \<open>func.now()\<close> gives, the
  start of the current transaction; a commit ends the transaction, so the clock moves on.
  \<open>next_uuid\<close> stands for \<open>uuid.uuid4()\<close>. The store answers every statement, with
  two exceptions that the definitions below write out: a text it cannot hold, and the
  connection lost during step 2 of a processing run.
\<close>

record database =
  documents :: "document list"
  sessions :: "chat_session list"
  messages :: "chat_message list"
  clock :: nat
  next_uuid :: nat

definition commit :: "database \<Rightarrow> database" where
  "commit db = db\<lparr>clock := clock db + 1\<rparr>"

text \<open>
  A text column cannot hold the character NUL: a statement that writes such a text
  raises, and the service that issued it rolls back.
\<close>

definition storable :: "string \<Rightarrow> bool" where
  "storable s = (CHR 0x00 \<notin> set s)"

definition storable_opt :: "string option \<Rightarrow> bool" where
  "storable_opt v = (case v of None \<Rightarrow> True | Some s \<Rightarrow> storable s)"

text \<open>\<open>scalar_one_or_none\<close>: the row, \<open>None\<close> without a row; several rows raise.\<close>

definition scalar_one_or_none :: "'a list \<Rightarrow> exn + 'a option" where
  "scalar_one_or_none rows =
     (case rows of [] \<Rightarrow> Inr None | [r] \<Rightarrow> Inr (Some r)
      | _ \<Rightarrow> Inl (Exception ''MultipleResultsFound''))"

section \<open>ChatService\<close>

text \<open>The \<open>where\<close> clauses on \<open>chat_sessions\<close>: the id, and the owner when one is given.\<close>

definition session_matches :: "uuid \<Rightarrow> uuid option \<Rightarrow> chat_session \<Rightarrow> bool" where
  "session_matches session_id user_id s =
     (s_id s = session_id \<and> (case user_id of None \<Rightarrow> True | Some u \<Rightarrow> s_user_id s = u))"

definition get_session_by_id :: "database \<Rightarrow> uuid \<Rightarrow> uuid option \<Rightarrow> chat_session option" where
  "get_session_by_id db session_id user_id =
     (case scalar_one_or_none (filter (session_matches session_id user_id) (sessions db)) of
        Inl e \<Rightarrow> None
      | Inr session \<Rightarrow> session)"

text \<open>
  An \<open>UPDATE\<close> of \<open>chat_sessions\<close> sets the given columns of the matching rows; the column
  \<open>updated_at\<close> is declared with \<open>onupdate=func.now()\<close>, so every such statement that does
  not set it itself refreshes it.
\<close>

definition update_sessions ::
  "(chat_session \<Rightarrow> bool) \<Rightarrow> (chat_session \<Rightarrow> chat_session) \<Rightarrow> database \<Rightarrow> database" where
  "update_sessions matching set_values db =
     db\<lparr>sessions := map (\<lambda>s. if matching s then (set_values s)\<lparr>s_updated_at := clock db\<rparr> else s)
                         (sessions db)\<rparr>"

definition update_session ::
  "database \<Rightarrow> uuid \<Rightarrow> string option \<Rightarrow> uuid option \<Rightarrow> database \<times> chat_session option" where
  "update_session db session_id title user_id =
     (case title of
        None \<Rightarrow> (db, get_session_by_id db session_id user_id)
      | Some t \<Rightarrow>
          (let db' = commit (update_sessions (session_matches session_id user_id)
                               (\<lambda>s. s\<lparr>s_title := t\<rparr>) db)
           in (db', (case scalar_one_or_none
                            (filter (session_matches session_id user_id) (sessions db')) of
                       Inl e \<Rightarrow> None
                     | Inr session \<Rightarrow> session))))"

text \<open>
  \<open>ChatMessageCreate\<close>: the role is \<open>user\<close> or \<open>assistant\<close> and the content is a text of at
  least one character; anything else is a validation error (\<open>None\<close>).
\<close>

record message_create =
  mc_role :: string
  mc_content :: string
  mc_sources :: "source list option"

definition ChatMessageCreate ::
  "string \<Rightarrow> string option \<Rightarrow> source list option \<Rightarrow> message_create option" where
  "ChatMessageCreate role content sources =
     (if role = ''user'' \<or> role = ''assistant'' then
        (case content of
           None \<Rightarrow> None
         | Some c \<Rightarrow> if length c \<ge> 1
                     then Some \<lparr>mc_role = role, mc_content = c, mc_sources = sources\<rparr>
                     else None)
      else None)"

definition update_session_timestamp :: "database \<Rightarrow> uuid \<Rightarrow> database" where
  "update_session_timestamp db session_id =
     commit (update_sessions (\<lambda>s. s_id s = session_id) (\<lambda>s. s\<lparr>s_updated_at := clock db\<rparr>) db)"

text \<open>
  \<open>add_message\<close>. When the store refuses the row, the handler rolls back and the answer is
  \<open>None\<close>.
\<close>

definition add_message ::
  "database \<Rightarrow> uuid \<Rightarrow> message_create \<Rightarrow> uuid option \<Rightarrow> database \<times> chat_message option" where
  "add_message db session_id message_data user_id =
     (case get_session_by_id db session_id user_id of
        None \<Rightarrow> (db, None)
      | Some session \<Rightarrow>
          (let message = \<lparr>m_id = UUID (next_uuid db), m_session_id = session_id,
                          m_role = mc_role message_data, m_content = mc_content message_data,
                          m_sources = mc_sources message_data, m_created_at = clock db\<rparr>
           in if \<not> (storable (m_role message) \<and> storable (m_content message))
              then (db, None)
              else
                (let db = commit (db\<lparr>messages := messages db @ [message],
                                     next_uuid := next_uuid db + 1\<rparr>);
                     db = update_session_timestamp db session_id
                 in (db, Some message))))"

text \<open>
  \<open>get_session_messages\<close>: the rows of the session ordered by \<open>created_at\<close> ascending,
  then \<open>OFFSET\<close>, then \<open>LIMIT\<close>. Rows of equal time keep their insertion order.
\<close>

definition get_session_messages ::
  "database \<Rightarrow> uuid \<Rightarrow> nat \<Rightarrow> nat \<Rightarrow> uuid option \<Rightarrow> chat_message list" where
  "get_session_messages db session_id limit offset user_id =
     (case get_session_by_id db session_id user_id of
        None \<Rightarrow> []
      | Some session \<Rightarrow>
          take limit (drop offset (sort_key m_created_at
            (filter (\<lambda>m. m_session_id m = session_id) (messages db)))))"

definition update_session_title :: "database \<Rightarrow> uuid \<Rightarrow> string \<Rightarrow> database" where
  "update_session_title db session_id first_message =
     (let title = strip (take 50 first_message);
          title = (if length first_message > 50 then title @ ''...'' else title)
      in commit (update_sessions (\<lambda>s. s_id s = session_id) (\<lambda>s. s\<lparr>s_title := title\<rparr>) db))"

text \<open>
  \<open>process_chat_message\<close>. A validation error of \<open>ChatMessageCreate\<close> is an exception, and
  the handler of the method answers every exception with \<open>None\<close>.
\<close>

definition process_chat_message ::
  "services \<Rightarrow> database \<Rightarrow> uuid \<Rightarrow> uuid \<Rightarrow> string \<Rightarrow> uuid list option
     \<Rightarrow> database \<times> chat_message option" where
  "process_chat_message env db user_id session_id user_message document_ids =
     (case ChatMessageCreate ''user'' (Some user_message) None of
        None \<Rightarrow> (db, None)
      | Some user_msg_data \<Rightarrow>
          (case add_message db session_id user_msg_data (Some user_id) of
             (db, None) \<Rightarrow> (db, None)
           | (db, Some user_msg) \<Rightarrow>
               (let messages = get_session_messages db session_id 20 0 (Some user_id);
                    document_id_strings =
                      (case document_ids of
                         None \<Rightarrow> None
                       | Some ds \<Rightarrow> if ds \<noteq> [] then Some (map str_uuid ds) else None)
                in case generate_chat_response env user_message messages (str_uuid user_id)
                          document_id_strings of
                     None \<Rightarrow> (db, None)
                   | Some ai_response \<Rightarrow>
                       (case ChatMessageCreate ''assistant'' (ar_content ai_response)
                               (Some (ar_sources ai_response)) of
                          None \<Rightarrow> (db, None)
                        | Some ai_msg_data \<Rightarrow>
                            (case add_message db session_id ai_msg_data (Some user_id) of
                               (db, ai_msg) \<Rightarrow>
                                 (let db = (if length messages \<le> 2
                                            then update_session_title db session_id user_message
                                            else db)
                                  in (db, ai_msg)))))))"

section \<open>The chat endpoint that clears a session\<close>

datatype http_error = HTTPException nat string

definition clear_session_messages :: "database \<Rightarrow> uuid \<Rightarrow> uuid \<Rightarrow> database \<times> (http_error + unit)" where
  "clear_session_messages db session_id user_id =
     (case get_session_by_id db session_id (Some user_id) of
        None \<Rightarrow> (db, Inl (HTTPException 404 ''Chat session not found''))
      | Some session \<Rightarrow>
          (case update_session db session_id (Some ''New Chat'') (Some user_id) of
             (db, _) \<Rightarrow> (db, Inr ())))"

section \<open>DocumentService\<close>

definition document_matches :: "uuid \<Rightarrow> uuid option \<Rightarrow> document \<Rightarrow> bool" where
  "document_matches document_id user_id d =
     (d_id d = document_id \<and> (case user_id of None \<Rightarrow> True | Some u \<Rightarrow> d_user_id d = u))"

definition get_by_id :: "database \<Rightarrow> uuid \<Rightarrow> uuid option \<Rightarrow> document option" where
  "get_by_id db document_id user_id =
     (case scalar_one_or_none (filter (document_matches document_id user_id) (documents db)) of
        Inl e \<Rightarrow> None
      | Inr document \<Rightarrow> document)"

text \<open>An \<open>UPDATE\<close> of \<open>documents\<close>; \<open>updated_at\<close> is refreshed as for the sessions.\<close>

definition update_documents ::
  "(document \<Rightarrow> bool) \<Rightarrow> (document \<Rightarrow> document) \<Rightarrow> database \<Rightarrow> database" where
  "update_documents matching set_values db =
     db\<lparr>documents := map (\<lambda>d. if matching d then (set_values d)\<lparr>d_updated_at := clock db\<rparr> else d)
                          (documents db)\<rparr>"

record document_create =
  dc_name :: string
  dc_file_type :: string
  dc_file_size :: nat
  dc_original_name :: string
  dc_storage_path :: string
  dc_content :: "string option"
  dc_metadata :: "json option"

text \<open>\<open>DocumentCreate\<close>: a name of 1 to 255 characters and a positive size, or a validation error.\<close>

definition DocumentCreate ::
  "string \<Rightarrow> string \<Rightarrow> string \<Rightarrow> nat \<Rightarrow> string \<Rightarrow> document_create option" where
  "DocumentCreate name original_name file_type file_size storage_path =
     (if 1 \<le> length name \<and> length name \<le> 255 \<and> file_size > 0
      then Some \<lparr>dc_name = name, dc_file_type = file_type, dc_file_size = file_size,
                 dc_original_name = original_name, dc_storage_path = storage_path,
                 dc_content = None, dc_metadata = None\<rparr>
      else None)"

text \<open>
  \<open>DocumentService.create\<close>. The texts of a new row are the names, the type and the path
  of an uploaded file, which are taken to be texts the store can hold.
\<close>

definition create :: "database \<Rightarrow> uuid \<Rightarrow> document_create \<Rightarrow> database \<times> document option" where
  "create db user_id document_data =
     (let document = \<lparr>d_id = UUID (next_uuid db), d_user_id = user_id,
                       d_name = dc_name document_data,
                       d_original_name = dc_original_name document_data,
                       d_file_type = dc_file_type document_data,
                       d_file_size = dc_file_size document_data,
                       d_storage_path = dc_storage_path document_data,
                       d_status = ''uploading'',
                       d_content = dc_content document_data,
                       d_doc_metadata = dc_metadata document_data,
                       d_created_at = clock db, d_updated_at = clock db\<rparr>
      in (commit (db\<lparr>documents := documents db @ [document], next_uuid := next_uuid db + 1\<rparr>),
          Some document))"

record document_update =
  du_name :: "string option"
  du_status :: "string option"
  du_content :: "string option"
  du_metadata :: "json option"

text \<open>
  \<open>DocumentService.update\<close>. When the store refuses a value, the handler rolls back and
  the answer is \<open>None\<close>; nothing is written.
\<close>

definition update ::
  "database \<Rightarrow> uuid \<Rightarrow> document_update \<Rightarrow> uuid option \<Rightarrow> database \<times> document option" where
  "update db document_id document_data user_id =
     (if du_name document_data = None \<and> du_status document_data = None \<and>
         du_content document_data = None \<and> du_metadata document_data = None
      then (db, get_by_id db document_id user_id)
      else if \<not> (storable_opt (du_name document_data) \<and> storable_opt (du_status document_data) \<and>
                 storable_opt (du_content document_data))
      then (db, None)
      else
        (let set_values = (\<lambda>d.
               let d = (case du_name document_data of None \<Rightarrow> d | Some v \<Rightarrow> d\<lparr>d_name := v\<rparr>);
                   d = (case du_status document_data of None \<Rightarrow> d | Some v \<Rightarrow> d\<lparr>d_status := v\<rparr>);
                   d = (case du_content document_data of None \<Rightarrow> d | Some v \<Rightarrow> d\<lparr>d_content := Some v\<rparr>);
                   d = (case du_metadata document_data of None \<Rightarrow> d | Some v \<Rightarrow> d\<lparr>d_doc_metadata := Some v\<rparr>)
               in d);
             db' = commit (update_documents (document_matches document_id user_id) set_values db)
         in (db', (case scalar_one_or_none
                          (filter (document_matches document_id user_id) (documents db')) of
                     Inl e \<Rightarrow> None
                   | Inr document \<Rightarrow> document))))"

definition update_status :: "database \<Rightarrow> uuid \<Rightarrow> string \<Rightarrow> uuid option \<Rightarrow> database \<times> bool" where
  "update_status db document_id status user_id =
     (let rowcount = length (filter (document_matches document_id user_id) (documents db));
          db' = commit (update_documents (document_matches document_id user_id)
                          (\<lambda>d. d\<lparr>d_status := status\<rparr>) db)
      in (db', rowcount > 0))"

section \<open>The document endpoints\<close>

text \<open>
  What one processing run meets outside the tables: the file system, the three methods
  of \<open>AIService\<close> it awaits, and the connection to the store during step 2. Each of the
  called methods handles the failures of the service behind it; \<open>Inl\<close> (for the update of
  step 2, \<open>persist_error\<close>) is an error that still leaves the method, as when the
  \<open>rollback\<close> in the handler of \<open>DocumentService.update\<close> raises on a lost connection. That
  is the case the handler of \<open>_process_document_async\<close> is written for. An update that
  raises writes nothing.
\<close>

record processing_env =
  save_file :: "string \<Rightarrow> string \<Rightarrow> uuid \<Rightarrow> string option"
  extract_document_text :: "string \<Rightarrow> string \<Rightarrow> exn + string option"
  persist_error :: "exn option"
  create_document_embeddings :: "string \<Rightarrow> exn + real list option"
  index_document_in_search :: "string \<Rightarrow> string \<Rightarrow> string \<Rightarrow> json \<Rightarrow> string \<Rightarrow> exn + bool"

text \<open>
  \<open>_process_document_async\<close>. \<open>Inl e\<close> is the exception the function raises: its handler
  marks the document and ends with \<open>raise e\<close>.
\<close>

definition process_document_async ::
  "processing_env \<Rightarrow> database \<Rightarrow> uuid \<Rightarrow> string \<Rightarrow> string \<Rightarrow> database \<times> (exn + unit)" where
  "process_document_async env db document_id storage_path file_type =
     (let handler = (\<lambda>db e. (fst (update_status db document_id ''error'' None), Inl e))
      in case extract_document_text env storage_path file_type of
           Inl e \<Rightarrow> handler db e
         | Inr text_content \<Rightarrow>
             (case (case text_content of None \<Rightarrow> None
                    | Some t \<Rightarrow> if t \<noteq> [] then Some t else None) of
                Some text_content \<Rightarrow>
                  (let update_data = \<lparr>du_name = None, du_status = Some ''ready'',
                                      du_content = Some text_content, du_metadata = None\<rparr>
                   in case persist_error env of
                        Some e \<Rightarrow> handler db e
                      | None \<Rightarrow>
                          (let db = fst (update db document_id update_data None)
                           in case create_document_embeddings env text_content of
                                Inl e \<Rightarrow> handler db e
                              | Inr embeddings \<Rightarrow>
                                  (case get_by_id db document_id None of
                                     None \<Rightarrow> (db, Inr ())
                                   | Some document \<Rightarrow>
                                       (case index_document_in_search env
                                               (str_uuid (d_id document)) (d_name document)
                                               text_content
                                               (case d_doc_metadata document of
                                                  None \<Rightarrow> JDict []
                                                | Some m \<Rightarrow> if truthy m then m else JDict [])
                                               (str_uuid (d_user_id document)) of
                                          Inl e \<Rightarrow> handler db e
                                        | Inr indexed \<Rightarrow> (db, Inr ())))))
              | None \<Rightarrow> (fst (update_status db document_id ''error'' None), Inr ())))"

record settings =
  MAX_FILE_SIZE :: nat
  ALLOWED_FILE_TYPES :: "string list"

definition default_settings :: settings where
  "default_settings =
     \<lparr>MAX_FILE_SIZE = 50 * 1024 * 1024,
      ALLOWED_FILE_TYPES =
        [''application/pdf'', ''application/msword'',
         ''application/vnd.openxmlformats-officedocument.wordprocessingml.document'',
         ''text/plain'', ''image/jpeg'', ''image/png'']\<rparr>"

record upload_file =
  content_type :: "string option"
  filename :: "string option"
  file_content :: string

record document_upload =
  up_message :: string
  up_document_id :: uuid
  up_status :: string

text \<open>\<open>a or b\<close> on optional texts: the first that is given and not empty.\<close>

definition or_else :: "string option \<Rightarrow> string \<Rightarrow> string" where
  "or_else a b = (case a of None \<Rightarrow> b | Some v \<Rightarrow> if v \<noteq> [] then v else b)"

text \<open>
  \<open>upload_document\<close>. An \<open>HTTPException\<close> raised inside passes through; every other
  exception becomes the answer 500 \<open>Failed to upload document\<close>.
\<close>

definition upload_document ::
  "processing_env \<Rightarrow> settings \<Rightarrow> database \<Rightarrow> upload_file \<Rightarrow> string option \<Rightarrow> uuid
     \<Rightarrow> database \<times> (http_error + document_upload)" where
  "upload_document env cfg db file name user_id =
     (case content_type file of
        None \<Rightarrow> (db, Inl (HTTPException 400 ''File type None not allowed''))
      | Some file_type \<Rightarrow>
          if file_type \<notin> set (ALLOWED_FILE_TYPES cfg)
          then (db, Inl (HTTPException 400 (''File type '' @ file_type @ '' not allowed'')))
          else if length (file_content file) > MAX_FILE_SIZE cfg
          then (db, Inl (HTTPException 413
                  (''File size exceeds maximum allowed size of '' @ str_nat (MAX_FILE_SIZE cfg) @
                   '' bytes'')))
          else
            (case (case save_file env (file_content file) (or_else (filename file) ''unknown'')
                          user_id of
                     None \<Rightarrow> None | Some p \<Rightarrow> if p \<noteq> [] then Some p else None) of
               None \<Rightarrow> (db, Inl (HTTPException 500 ''Failed to save file''))
             | Some storage_path \<Rightarrow>
                 (case DocumentCreate
                         (or_else name (or_else (filename file) ''Untitled Document''))
                         (or_else (filename file) ''unknown'')
                         (or_else (Some file_type) ''application/octet-stream'')
                         (length (file_content file)) storage_path of
                    None \<Rightarrow> (db, Inl (HTTPException 500 ''Failed to upload document''))
                  | Some document_data \<Rightarrow>
                      (case create db user_id document_data of
                         (db, None) \<Rightarrow>
                           (db, Inl (HTTPException 500 ''Failed to create document record''))
                       | (db, Some document) \<Rightarrow>
                           (case process_document_async env db (d_id document) storage_path
                                   file_type of
                              (db, Inl e) \<Rightarrow>
                                (db, Inl (HTTPException 500 ''Failed to upload document''))
                            | (db, Inr _) \<Rightarrow>
                                (db, Inr \<lparr>up_message = ''Document uploaded successfully'',
                                          up_document_id = d_id document,
                                          up_status = ''processing''\<rparr>))))))"

text \<open>\<open>reprocess_document\<close>, with the same two handlers.\<close>

definition reprocess_document ::
  "processing_env \<Rightarrow> database \<Rightarrow> uuid \<Rightarrow> uuid \<Rightarrow> database \<times> (http_error + document option)" where
  "reprocess_document env db document_id user_id =
     (case get_by_id db document_id (Some user_id) of
        None \<Rightarrow> (db, Inl (HTTPException 404 ''Document not found''))
      | Some document \<Rightarrow>
          (let db = fst (update_status db document_id ''processing'' (Some user_id))
           in case process_document_async env db document_id (d_storage_path document)
                     (d_file_type document) of
                (db, Inl e) \<Rightarrow> (db, Inl (HTTPException 500 ''Failed to reprocess document''))
              | (db, Inr _) \<Rightarrow> (db, Inr (get_by_id db document_id (Some user_id)))))"

section \<open>Concrete data\<close>

text \<open>
  A text without an apostrophe, as \<open>str\<close> gives for every \<open>UUID\<close>; and the entries a search
  client can return: those of its index, none without a client.
\<close>

definition plain :: "string \<Rightarrow> bool" where
  "plain s = (CHR 0x27 \<notin> set s)"

definition indexed :: "search_backend option \<Rightarrow> index_entry list" where
  "indexed client = (case client of None \<Rightarrow> [] | Some b \<Rightarrow> entries b)"

definition example_entry :: "string \<Rightarrow> string \<Rightarrow> string \<Rightarrow> index_entry" where
  "example_entry doc owner text =
     \<lparr>e_id = doc, e_title = ''notes.txt'', e_content = text, e_document_id = doc,
      e_document_name = ''notes.txt'', e_user_id = owner, e_metadata = JStr ''{}'',
      e_created_at = ''2024-01-01T00:00:00'', e_content_vector = None\<rparr>"

definition example_backend :: search_backend where
  "example_backend =
     \<lparr>entries = [example_entry ''d1'' ''u1'' ''Meeting at 3pm Tuesday'',
                 example_entry ''d2'' ''u2'' ''Budget for the second quarter'',
                 example_entry ''d3'' ''u1'' ''Agenda''],
      score_of = (\<lambda>q e. 1), highlights_of = (\<lambda>q e. None), down = False\<rparr>"

definition example_lib :: pylib where
  "example_lib =
     \<lparr>json_loads = (\<lambda>s. if s = ''{}'' then Some (JDict []) else None),
      format_json = (\<lambda>v. case v of JStr s \<Rightarrow> s | JInt i \<Rightarrow> (if i < 0 then ''-'' else []) @ str_nat (nat \<bar>i\<bar>) | _ \<Rightarrow> ''?'')\<rparr>"

definition example_services :: services where
  "example_services = \<lparr>search_client = Some example_backend, openai_client = None, lib = example_lib\<rparr>"

definition example_message :: "nat \<Rightarrow> nat \<Rightarrow> string \<Rightarrow> string \<Rightarrow> nat \<Rightarrow> chat_message" where
  "example_message i sid role text t =
     \<lparr>m_id = UUID i, m_session_id = UUID sid, m_role = role, m_content = text,
      m_sources = None, m_created_at = t\<rparr>"

definition example_db :: database where
  "example_db =
     \<lparr>documents = [],
      sessions =
        [\<lparr>s_id = UUID 1, s_user_id = UUID 10, s_title = ''Plans'', s_created_at = 1, s_updated_at = 3\<rparr>,
         \<lparr>s_id = UUID 2, s_user_id = UUID 11, s_title = ''Other'', s_created_at = 4, s_updated_at = 5\<rparr>,
         \<lparr>s_id = UUID 3, s_user_id = UUID 10, s_title = ''New Chat'', s_created_at = 6, s_updated_at = 6\<rparr>],
      messages =
        [example_message 20 1 ''user'' ''When is the meeting?'' 2,
         example_message 21 1 ''assistant'' ''At 3pm on Tuesday.'' 3,
         example_message 22 2 ''user'' ''What is the budget?'' 5],
      clock = 9, next_uuid = 100\<rparr>"

definition example_result :: "string \<Rightarrow> string \<Rightarrow> json \<Rightarrow> real \<Rightarrow> search_result" where
  "example_result doc text metadata score =
     \<lparr>r_id = doc, r_title = ''notes.txt'', r_content = text, r_document_id = doc,
      r_document_name = ''notes.txt'', r_score = score, r_highlights = [],
      r_metadata = metadata\<rparr>"

definition short_result :: search_result where
  "short_result = example_result ''d1'' ''Meeting at 3pm Tuesday'' (JDict [(''page'', JInt 3)]) 0.75"

definition long_result :: search_result where
  "long_result = example_result ''d3'' (replicate 201 (CHR ''a'')) (JStr ''{}'') 0.5"

definition failing_services :: services where
  "failing_services =
     \<lparr>search_client = None,
      openai_client = Some \<lparr>complete = (\<lambda>messages. Inl (Exception ''completion timed out''))\<rparr>,
      lib = example_lib\<rparr>"

definition long_question :: string where
  "long_question = ''  Please summarise the decisions taken at the planning meeting''"

definition long_session :: database where
  "long_session =
     \<lparr>documents = [],
      sessions = [\<lparr>s_id = UUID 1, s_user_id = UUID 10, s_title = ''Plans'', s_created_at = 0, s_updated_at = 21\<rparr>],
      messages = map (\<lambda>i. example_message (100 + i) 1 (if odd i then ''user'' else ''assistant'') (str_nat i) i) [1..<22],
      clock = 22, next_uuid = 200\<rparr>"

text \<open>
  What \<open>_update_session_timestamp\<close> makes of a row: the row of the session gets the time,
  every other row stays.
\<close>

definition touch :: "uuid \<Rightarrow> nat \<Rightarrow> chat_session \<Rightarrow> chat_session" where
  "touch sid t s = (if s_id s = sid then s\<lparr>s_updated_at := t\<rparr> else s)"

definition raising_env :: processing_env where
  "raising_env =
     \<lparr>save_file = (\<lambda>content name user_id. Some (''uploads/'' @ name)),
      extract_document_text = (\<lambda>path file_type. Inr (Some ''Meeting at 3pm Tuesday'')),
      persist_error = Some (Exception ''connection closed''),
      create_document_embeddings = (\<lambda>text. Inr None),
      index_document_in_search = (\<lambda>document_id title text metadata user_id. Inr False)\<rparr>"

definition example_file :: upload_file where
  "example_file =
     \<lparr>content_type = Some ''text/plain'', filename = Some ''notes.txt'',
      file_content = ''Meeting at 3pm Tuesday''\<rparr>"

definition example_document :: document where
  "example_document =
     \<lparr>d_id = UUID 50, d_user_id = UUID 10, d_name = ''notes.txt'', d_original_name = ''notes.txt'',
      d_file_type = ''text/plain'', d_file_size = 22, d_storage_path = ''uploads/notes.txt'',
      d_status = ''ready'', d_content = Some ''Meeting at 3pm Tuesday'', d_doc_metadata = None,
      d_created_at = 7, d_updated_at = 8\<rparr>"

definition library_db :: database where
  "library_db = example_db\<lparr>documents := [example_document]\<rparr>"


definition unreadable_env :: processing_env where
  "unreadable_env = raising_env\<lparr>extract_document_text := (\<lambda>path file_type. Inl (Exception ''unreadable''))\<rparr>"

definition embedding_env :: processing_env where
  "embedding_env = raising_env\<lparr>persist_error := None,
     create_document_embeddings := (\<lambda>text. Inl (Exception ''embedding failed''))\<rparr>"

definition indexing_env :: processing_env where
  "indexing_env = raising_env\<lparr>persist_error := None,
     index_document_in_search := (\<lambda>document_id title text metadata user_id. Inl (Exception ''index failed''))\<rparr>"

section \<open>Retrieval stays within the owner and within the selected documents\<close>

subsection \<open>The service reads the filter text as the source means it\<close>

lemma parse_value_plain:
  "plain v \<Longrightarrow> (rest = [] \<or> hd rest \<noteq> CHR 0x27) \<Longrightarrow>
     parse_value (v @ CHR 0x27 # rest) = Some (v, rest)"
proof (induction v)
  case Nil
  then show ?case by (cases rest) auto
next
  case (Cons a v)
  from Cons.prems(1) have a: "a \<noteq> CHR 0x27" and v: "plain v" by (auto simp: plain_def)
  obtain d cs where dc: "v @ CHR 0x27 # rest = d # cs" by (cases v) auto
  have "parse_value (a # d # cs) = map_option (\<lambda>(w, r). (a # w, r)) (parse_value (d # cs))"
    using a by simp
  with dc Cons.IH [OF v Cons.prems(2)] show ?case by simp
qed

lemma parse_clause_user:
  "plain v \<Longrightarrow> (rest = [] \<or> hd rest \<noteq> CHR 0x27) \<Longrightarrow>
     parse_clause (''user_id eq '' @ apos @ v @ apos @ rest) = Some (Eq ''user_id'' v, rest)"
  by (simp add: parse_clause_def is_ident_def apos_def parse_value_plain)

lemma parse_clause_document:
  "plain v \<Longrightarrow> (rest = [] \<or> hd rest \<noteq> CHR 0x27) \<Longrightarrow>
     parse_clause (''document_id eq '' @ apos @ v @ apos @ rest) = Some (Eq ''document_id'' v, rest)"
  by (simp add: parse_clause_def is_ident_def apos_def parse_value_plain)


lemma parse_and_document:
  assumes "plain d" "rest = [] \<or> hd rest \<noteq> CHR 0x27" "\<not> prefix '' and '' rest" "2 \<le> n"
  shows "parse_and n (''document_id eq '' @ apos @ d @ apos @ rest) =
           Some ([Eq ''document_id'' d], rest)"
proof -
  from assms(4) obtain m where n: "n = Suc (Suc m)" by (metis add_2_eq_Suc le_Suc_ex)
  have "parse_primary (Suc m) (''document_id eq '' @ apos @ d @ apos @ rest) =
          parse_clause (''document_id eq '' @ apos @ d @ apos @ rest)" by simp
  with parse_clause_document [OF assms(1,2)] assms(3) show ?thesis by (simp add: n)
qed

lemma parse_or_documents:
  assumes "ds \<noteq> []" "\<forall>d \<in> set ds. plain d" "length ds + 2 \<le> n"
  shows "parse_or n (join '' or '' (map (\<lambda>doc_id. ''document_id eq '' @ apos @ doc_id @ apos) ds)
                      @ CHR '')'' # rest) =
           Some (map (Eq ''document_id'') ds, CHR '')'' # rest)"
  using assms
proof (induction ds arbitrary: n rule: list_nonempty_induct)
  case (single d)
  then obtain m where n: "n = Suc m" and m: "2 \<le> m" by (cases n) auto
  from single have d: "plain d" by simp
  have "parse_and m (''document_id eq '' @ apos @ d @ apos @ (CHR '')'' # rest)) =
          Some ([Eq ''document_id'' d], CHR '')'' # rest)"
    by (rule parse_and_document [OF d _ _ m]) simp_all
  then show ?case by (simp add: n conjunction_def)
next
  case (cons d ds)
  then obtain m where n: "n = Suc m" and m: "length ds + 2 \<le> m" "2 \<le> m" by (cases n) auto
  from cons.prems have d: "plain d" and ds: "\<forall>d \<in> set ds. plain d" by simp_all
  let ?tail = "join '' or '' (map (\<lambda>doc_id. ''document_id eq '' @ apos @ doc_id @ apos) ds) @ CHR '')'' # rest"
  from cons.hyps obtain x xs where xs: "ds = x # xs" by (cases ds) auto
  have shape: "join '' or '' (map (\<lambda>doc_id. ''document_id eq '' @ apos @ doc_id @ apos) (d # ds)) @ CHR '')'' # rest =
      ''document_id eq '' @ apos @ d @ apos @ ('' or '' @ ?tail)"
    by (simp add: xs)
  have "parse_and m (''document_id eq '' @ apos @ d @ apos @ ('' or '' @ ?tail)) =
          Some ([Eq ''document_id'' d], '' or '' @ ?tail)"
    by (rule parse_and_document [OF d _ _ m(2)]) simp_all
  moreover have "parse_or m ?tail = Some (map (Eq ''document_id'') ds, CHR '')'' # rest)"
    by (rule cons.IH [OF ds m(1)])
  ultimately show ?case unfolding shape by (simp add: n conjunction_def)
qed


lemma length_join:
  "\<forall>x \<in> set xs. x \<noteq> [] \<Longrightarrow> length xs \<le> length (join sep xs)"
proof (induction sep xs rule: join.induct)
  case (1 sep)
  then show ?case by simp
next
  case (2 sep p)
  then have "p \<noteq> []" by simp
  then show ?case by (cases p) simp_all
next
  case (3 sep p q ps)
  then have "p \<noteq> []" and "length (q # ps) \<le> length (join sep (q # ps))" by simp_all
  then show ?case by (cases p) simp_all
qed

lemma parse_or_owner:
  assumes "plain u" "3 \<le> n"
  shows "parse_or n (''user_id eq '' @ apos @ u @ apos) = Some ([Eq ''user_id'' u], [])"
proof -
  from assms(2) obtain k where n: "n = Suc (Suc (Suc k))"
    by (cases n; cases "n - 1"; cases "n - 2") auto
  have c: "parse_clause (''user_id eq '' @ apos @ u @ apos) = Some (Eq ''user_id'' u, [])"
    using parse_clause_user [OF assms(1), of "[]"] by simp
  have "parse_primary (Suc k) (''user_id eq '' @ apos @ u @ apos) =
          parse_clause (''user_id eq '' @ apos @ u @ apos)" by simp
  with c show ?thesis by (simp add: n conjunction_def)
qed

lemma parse_or_owner_subset:
  assumes u: "plain u" and ne: "ds \<noteq> []" and ds: "\<forall>d \<in> set ds. plain d"
    and n: "length ds + 6 \<le> n"
  shows "parse_or n (''user_id eq '' @ apos @ u @ apos @ '' and '' @ ''('' @
           join '' or '' (map (\<lambda>doc_id. ''document_id eq '' @ apos @ doc_id @ apos) ds) @ '')'') =
         Some ([And_join [Eq ''user_id'' u, disjunction (map (Eq ''document_id'') ds)]], [])"
proof -
  let ?J = "join '' or '' (map (\<lambda>doc_id. ''document_id eq '' @ apos @ doc_id @ apos) ds)"
  define k where "k = n - 4"
  from n have k: "n = Suc (Suc (Suc (Suc k)))" and kk: "length ds + 2 \<le> k"
    by (simp_all add: k_def)
  have j: "parse_or k (?J @ CHR '')'' # []) = Some (map (Eq ''document_id'') ds, CHR '')'' # [])"
    by (rule parse_or_documents [OF ne ds kk])
  have p2: "parse_primary (Suc k) (CHR ''('' # ?J @ '')'') =
              Some (disjunction (map (Eq ''document_id'') ds), [])"
    using j by simp
  have a2: "parse_and (Suc (Suc k)) (CHR ''('' # ?J @ '')'') =
              Some ([disjunction (map (Eq ''document_id'') ds)], [])"
    using p2 by simp
  have c: "parse_clause (''user_id eq '' @ apos @ u @ apos @ ('' and '' @ ''('' @ ?J @ '')'')) =
             Some (Eq ''user_id'' u, '' and '' @ ''('' @ ?J @ '')'')"
    by (rule parse_clause_user [OF u]) simp
  have p1: "parse_primary (Suc (Suc k)) (''user_id eq '' @ apos @ u @ apos @ ('' and '' @ ''('' @ ?J @ '')'')) =
             Some (Eq ''user_id'' u, '' and '' @ ''('' @ ?J @ '')'')"
    using c by simp
  have a1: "parse_and (Suc (Suc (Suc k))) (''user_id eq '' @ apos @ u @ apos @ ('' and '' @ ''('' @ ?J @ '')'')) =
             Some ([Eq ''user_id'' u, disjunction (map (Eq ''document_id'') ds)], [])"
    using p1 a2 by simp
  show ?thesis unfolding k using a1 by (simp add: conjunction_def)
qed


lemma search_filter_None:
  "selected ds = None \<Longrightarrow> search_filter u ds = ''user_id eq '' @ apos @ u @ apos"
  by (simp add: search_filter_def)

lemma search_filter_Some:
  "selected ds = Some l \<Longrightarrow> search_filter u ds =
     ''user_id eq '' @ apos @ u @ apos @ '' and '' @ ''('' @
       join '' or '' (map (\<lambda>doc_id. ''document_id eq '' @ apos @ doc_id @ apos) l) @ '')''"
  by (simp add: search_filter_def)

lemma parse_filter_owner:
  assumes "plain u" "selected ds = None"
  shows "parse_filter (search_filter u ds) = Some (Eq ''user_id'' u)"
proof -
  have "parse_or (3 * length (''user_id eq '' @ apos @ u @ apos) + 3) (''user_id eq '' @ apos @ u @ apos) =
          Some ([Eq ''user_id'' u], [])"
    by (rule parse_or_owner [OF assms(1)]) simp
  then show ?thesis
    unfolding search_filter_None [OF assms(2)] parse_filter_def by (simp add: disjunction_def)
qed

lemma parse_filter_subset:
  assumes u: "plain u" and sel: "selected ds = Some l" and l: "\<forall>d \<in> set l. plain d"
  shows "parse_filter (search_filter u ds) =
           Some (And_join [Eq ''user_id'' u, disjunction (map (Eq ''document_id'') l)])"
proof -
  let ?J = "join '' or '' (map (\<lambda>doc_id. ''document_id eq '' @ apos @ doc_id @ apos) l)"
  let ?t = "''user_id eq '' @ apos @ u @ apos @ '' and '' @ ''('' @ ?J @ '')''"
  from sel have ne: "l \<noteq> []" by (auto simp: selected_def split: option.splits if_splits)
  have "length (map (\<lambda>doc_id. ''document_id eq '' @ apos @ doc_id @ apos) l) \<le> length ?J"
    by (rule length_join) simp
  then have "length l + 6 \<le> 3 * length ?t + 3" by simp
  from parse_or_owner_subset [OF u ne l this]
  show ?thesis
    unfolding search_filter_Some [OF sel] parse_filter_def by (simp add: disjunction_def)
qed

lemma holds_disjunction:
  "l \<noteq> [] \<Longrightarrow> holds e (disjunction (map (Eq f) l)) \<Longrightarrow> \<exists>v \<in> set l. field_value e f = Some v"
  by (cases l rule: list.exhaust [case_product list.exhaust])
     (auto simp: disjunction_def list_ex_iff split: list.splits)

lemma search_hits:
  "search b q n t = Inr hits \<Longrightarrow> h \<in> set hits \<Longrightarrow>
     \<exists>flt. parse_filter t = Some flt \<and> hit_entry h \<in> set (entries b) \<and> holds (hit_entry h) flt"
  by (auto simp: search_def split: if_splits option.splits dest!: in_set_takeD)

lemma search_documents_results:
  assumes r: "r \<in> set (search_documents client q u n ds)"
    and u: "plain u" and l: "\<forall>d \<in> set (case ds of None \<Rightarrow> [] | Some l \<Rightarrow> l). plain d"
  shows "\<exists>e \<in> set (indexed client). e_user_id e = u \<and>
           (\<forall>l. selected ds = Some l \<longrightarrow> e_document_id e \<in> set l) \<and>
           r_id r = e_id e \<and> r_document_id r = e_document_id e"
proof -
  from r obtain b hits h where b: "client = Some b"
    and s: "search b q n (search_filter u ds) = Inr hits" and h: "h \<in> set hits" and rh: "r = to_result h"
    by (auto simp: search_documents_def fallback_search_def split: option.splits sum.splits)
  from search_hits [OF s h] obtain flt where p: "parse_filter (search_filter u ds) = Some flt"
    and e: "hit_entry h \<in> set (entries b)" and f: "holds (hit_entry h) flt" by blast
  have "e_user_id (hit_entry h) = u \<and> (\<forall>l. selected ds = Some l \<longrightarrow> e_document_id (hit_entry h) \<in> set l)"
  proof (cases "selected ds")
    case None
    from parse_filter_owner [OF u None] p f show ?thesis by (simp add: None field_value_def)
  next
    case (Some l')
    then have sub: "ds = Some l'" and ne: "l' \<noteq> []"
      by (auto simp: selected_def split: option.splits if_splits)
    with l have "\<forall>d \<in> set l'. plain d" by simp
    from parse_filter_subset [OF u Some this] p f
    have 1: "holds (hit_entry h) (Eq ''user_id'' u)"
      and 2: "holds (hit_entry h) (disjunction (map (Eq ''document_id'') l'))" by simp_all
    from holds_disjunction [OF ne 2] 1 show ?thesis by (auto simp: Some field_value_def)
  qed
  with b e rh show ?thesis by (auto simp: indexed_def to_result_def)
qed

lemma hex_char_plain:
  "d < 16 \<Longrightarrow> hex_char d \<noteq> CHR 0x27"
proof
  assume d: "d < 16" and "hex_char d = CHR 0x27"
  then have "of_char (hex_char d) = (of_char (CHR 0x27) :: nat)" by simp
  with d show False by (simp add: hex_char_def split: if_splits)
qed

lemma hex_digits_plain:
  "CHR 0x27 \<notin> set (hex_digits k n)"
proof (induction k arbitrary: n)
  case 0
  then show ?case by simp
next
  case (Suc k)
  have "hex_char (n mod 16) \<noteq> CHR 0x27" by (rule hex_char_plain) simp
  with Suc show ?case by auto
qed

lemma str_uuid_plain:
  "plain (str_uuid x)"
proof (cases x)
  case (UUID n)
  have "\<And>k xs. CHR 0x27 \<notin> set xs \<Longrightarrow> CHR 0x27 \<notin> set (take k xs) \<and> CHR 0x27 \<notin> set (drop k xs)"
    by (meson in_set_takeD in_set_dropD)
  with hex_digits_plain [of 32 n] show ?thesis
    by (simp add: UUID plain_def Let_def)
qed

lemma sources_document_ids:
  "s \<in> set (extract_sources_from_search l rs) \<Longrightarrow> \<exists>r \<in> set rs. src_document_id s = r_document_id r"
  by (auto simp: extract_sources_from_search_def)

subsection \<open>Isolation\<close>

text \<open>
  Claim C1. The filter text of \<open>search_documents\<close> always starts with the equality of the
  owner id. The ids are put into the text as they are, so the claim is about ids without
  an apostrophe; every id the services pass is the text of a \<open>UUID\<close> and has none. For
  such ids every result of a query for owner \<open>u\<close> is the entry of a document whose index
  entry carries owner \<open>u\<close>, and so is every source that \<open>generate_chat_response\<close> attaches
  to its answer. Without a client, or when the service raises, there are no results.
\<close>

theorem search_documents_owner_isolation:
  assumes "CHR 0x27 \<notin> set u"
    and "\<forall>d \<in> set (case ds of None \<Rightarrow> [] | Some l \<Rightarrow> l). CHR 0x27 \<notin> set d"
  shows "prefix (''user_id eq '' @ apos @ u @ apos) (search_filter u ds) \<and>
   (\<forall>r \<in> set (search_documents client q u n ds).
      \<exists>e \<in> set (indexed client). e_user_id e = u \<and> r_id r = e_id e \<and> r_document_id r = e_document_id e) \<and>
   (\<forall>a. generate_chat_response env q history u ds = Some a \<longrightarrow>
      (\<forall>s \<in> set (ar_sources a).
         \<exists>e \<in> set (indexed (search_client env)). e_user_id e = u \<and> src_document_id s = e_document_id e)) \<and>
   (\<forall>x. CHR 0x27 \<notin> set (str_uuid x))"
proof (intro conjI)
  from assms have u: "plain u" and l: "\<forall>d \<in> set (case ds of None \<Rightarrow> [] | Some l \<Rightarrow> l). plain d"
    by (simp_all add: plain_def)
  show "prefix (''user_id eq '' @ apos @ u @ apos) (search_filter u ds)"
    by (cases "selected ds") (simp_all add: search_filter_None search_filter_Some)
  show "\<forall>r \<in> set (search_documents client q u n ds).
      \<exists>e \<in> set (indexed client). e_user_id e = u \<and> r_id r = e_id e \<and> r_document_id r = e_document_id e"
  proof
    fix r assume "r \<in> set (search_documents client q u n ds)"
    from search_documents_results [OF this u l]
    show "\<exists>e \<in> set (indexed client). e_user_id e = u \<and> r_id r = e_id e \<and> r_document_id r = e_document_id e"
      by auto
  qed
  show "\<forall>a. generate_chat_response env q history u ds = Some a \<longrightarrow>
      (\<forall>s \<in> set (ar_sources a).
         \<exists>e \<in> set (indexed (search_client env)). e_user_id e = u \<and> src_document_id s = e_document_id e)"
  proof (intro allI impI ballI)
    fix a s
    assume a: "generate_chat_response env q history u ds = Some a" and s: "s \<in> set (ar_sources a)"
    from a have "ar_sources a = extract_sources_from_search (lib env)
        (search_documents (search_client env) q u 5 ds)"
      by (auto simp: generate_chat_response_def Let_def)
    with s obtain r where r: "r \<in> set (search_documents (search_client env) q u 5 ds)"
      and sr: "src_document_id s = r_document_id r"
      using sources_document_ids by metis
    from search_documents_results [OF r u l] sr
    show "\<exists>e \<in> set (indexed (search_client env)). e_user_id e = u \<and> src_document_id s = e_document_id e"
      by auto
  qed
  show "\<forall>x. CHR 0x27 \<notin> set (str_uuid x)"
    using str_uuid_plain by (simp add: plain_def)
qed

lemma example_search:
  "map r_document_id (search_documents (Some example_backend) ''meeting'' ''u1'' 5 None) = [''d3'', ''d1'']"
proof -
  have "parse_filter (search_filter ''u1'' None) = Some (Eq ''user_id'' ''u1'')"
    by (rule parse_filter_owner) (simp_all add: plain_def selected_def)
  then show ?thesis
    by (simp add: search_documents_def search_def example_backend_def example_entry_def
        field_value_def to_result_def)
qed

theorem search_documents_owner_isolation_witness:
  "map r_document_id (search_documents (Some example_backend) ''meeting'' ''u1'' 5 None) = [''d3'', ''d1''] \<and>
   list_all (\<lambda>r. \<exists>e \<in> set (indexed (Some example_backend)).
               e_user_id e = ''u1'' \<and> r_id r = e_id e \<and> r_document_id r = e_document_id e)
     (search_documents (Some example_backend) ''meeting'' ''u1'' 5 None) \<and>
   (\<exists>a. generate_chat_response example_services ''meeting'' [] ''u1'' None = Some a \<and>
      map src_document_id (ar_sources a) = [''d3'', ''d1''] \<and>
      list_all (\<lambda>s. \<exists>e \<in> set (indexed (search_client example_services)).
                  e_user_id e = ''u1'' \<and> src_document_id s = e_document_id e)
        (ar_sources a))"
proof -
  have 1: "map r_document_id (search_documents (Some example_backend) ''meeting'' ''u1'' 5 None) = [''d3'', ''d1'']"
    by (rule example_search)
  have 2: "\<exists>a. generate_chat_response example_services ''meeting'' [] ''u1'' None = Some a \<and>
      map src_document_id (ar_sources a) = [''d3'', ''d1'']"
    using 1 by (simp add: generate_chat_response_def Let_def example_services_def
        extract_sources_from_search_def comp_def)
  have h1: "CHR 0x27 \<notin> set ''u1''" by simp
  have h2: "\<forall>d \<in> set (case (None :: string list option) of None \<Rightarrow> [] | Some l \<Rightarrow> l). CHR 0x27 \<notin> set d"
    by simp
  note t = search_documents_owner_isolation [OF h1 h2, of "Some example_backend" "''meeting''" 5 example_services "[]"]
  from 2 obtain a where a: "generate_chat_response example_services ''meeting'' [] ''u1'' None = Some a"
    and m: "map src_document_id (ar_sources a) = [''d3'', ''d1'']" by auto
  from t a have 3: "list_all (\<lambda>s. \<exists>e \<in> set (indexed (search_client example_services)).
                  e_user_id e = ''u1'' \<and> src_document_id s = e_document_id e) (ar_sources a)"
    by (simp add: list_all_iff)
  from t have 4: "list_all (\<lambda>r. \<exists>e \<in> set (indexed (Some example_backend)).
               e_user_id e = ''u1'' \<and> r_id r = e_id e \<and> r_document_id r = e_document_id e)
     (search_documents (Some example_backend) ''meeting'' ''u1'' 5 None)"
    unfolding list_all_iff by (elim conjE)
  from a m 3 have "\<exists>a. generate_chat_response example_services ''meeting'' [] ''u1'' None = Some a \<and>
      map src_document_id (ar_sources a) = [''d3'', ''d1''] \<and>
      list_all (\<lambda>s. \<exists>e \<in> set (indexed (search_client example_services)).
                  e_user_id e = ''u1'' \<and> src_document_id s = e_document_id e)
        (ar_sources a)"
    by (intro exI [of _ a] conjI)
  with 1 4 show ?thesis by (intro conjI)
qed

text \<open>
  The apostrophe matters. An id that holds one changes how the service reads the filter:
  here the one selected id is not the id of any document, and the passage of document
  \<open>d1\<close> is returned. No endpoint passes such an id: the chat request holds \<open>UUID\<close>s,
  which the turn renders with \<open>str\<close>, and the search endpoint passes no subset.
\<close>

lemma apostrophe_in_id_leaves_subset:
  "map r_document_id (search_documents (Some example_backend) ''meeting'' ''u1'' 5
     (Some [''x'' @ apos @ '' or document_id eq '' @ apos @ ''d1''])) = [''d1'']"
  by code_simp

text \<open>
  Claim C2. With a subset of document ids that is not empty, every result of
  \<open>search_documents\<close> has a document id of the subset. As for the owner, the ids are those
  without an apostrophe, which the texts of \<open>UUID\<close>s are.
\<close>

theorem search_documents_subset_only:
  assumes "ds \<noteq> []" and "CHR 0x27 \<notin> set u" and "\<forall>d \<in> set ds. CHR 0x27 \<notin> set d"
  shows "(\<forall>r \<in> set (search_documents client q u n (Some ds)). r_document_id r \<in> set ds) \<and>
         (\<forall>x. CHR 0x27 \<notin> set (str_uuid x))"
proof (intro conjI ballI allI)
  fix r assume r: "r \<in> set (search_documents client q u n (Some ds))"
  from assms have u: "plain u"
    and l: "\<forall>d \<in> set (case Some ds of None \<Rightarrow> [] | Some l \<Rightarrow> l). plain d"
    by (simp_all add: plain_def)
  from assms(1) have "selected (Some ds) = Some ds" by (simp add: selected_def)
  with search_documents_results [OF r u l] show "r_document_id r \<in> set ds" by auto
next
  fix x show "CHR 0x27 \<notin> set (str_uuid x)"
    using str_uuid_plain [of x] by (simp add: plain_def)
qed

theorem search_documents_subset_only_witness:
  "map r_document_id (search_documents (Some example_backend) ''meeting'' ''u1'' 5 (Some [''d3''])) = [''d3''] \<and>
   list_all (\<lambda>r. r_document_id r \<in> set [''d3''])
     (search_documents (Some example_backend) ''meeting'' ''u1'' 5 (Some [''d3'']))"
proof -
  have "parse_filter (search_filter ''u1'' (Some [''d3''])) =
      Some (And_join [Eq ''user_id'' ''u1'', disjunction (map (Eq ''document_id'') [''d3''])])"
    by (rule parse_filter_subset) (simp_all add: plain_def selected_def)
  then have "map r_document_id (search_documents (Some example_backend) ''meeting'' ''u1'' 5 (Some [''d3''])) = [''d3'']"
    by (simp add: search_documents_def search_def example_backend_def example_entry_def
      field_value_def to_result_def disjunction_def)
  moreover have "[''d3''] \<noteq> ([] :: string list)" "CHR 0x27 \<notin> set ''u1''"
    "\<forall>d \<in> set [''d3'']. CHR 0x27 \<notin> set d" by simp_all
  note search_documents_subset_only [OF this, of "Some example_backend" "''meeting''" 5,
      THEN conjunct1]
  ultimately show ?thesis unfolding list_all_iff by (intro conjI)
qed


section \<open>Reading and clearing a session\<close>

lemma get_session_by_id_not_owned:
  "\<forall>s \<in> set (sessions db). s_id s = sid \<longrightarrow> s_user_id s \<noteq> u \<Longrightarrow>
     get_session_by_id db sid (Some u) = None"
proof -
  assume "\<forall>s \<in> set (sessions db). s_id s = sid \<longrightarrow> s_user_id s \<noteq> u"
  then have "filter (session_matches sid (Some u)) (sessions db) = []"
    by (auto simp: filter_empty_conv session_matches_def)
  then show ?thesis by (simp add: get_session_by_id_def scalar_one_or_none_def)
qed

text \<open>
  Claim C9. For a session id that does not exist or belongs to another user,
  \<open>get_session_messages\<close> returns the empty list, whatever messages the session holds;
  a session of the user without messages gives the same empty list, so the caller cannot
  tell the two apart.
\<close>

theorem get_session_messages_hides_foreign_sessions:
  "((\<forall>s \<in> set (sessions db). s_id s = sid \<longrightarrow> s_user_id s \<noteq> u) \<longrightarrow>
      get_session_messages db sid limit offset (Some u) = []) \<and>
   ((\<forall>m \<in> set (messages db). m_session_id m \<noteq> sid) \<longrightarrow>
      get_session_messages db sid limit offset (Some u) = [])"
proof (intro conjI impI)
  assume "\<forall>s \<in> set (sessions db). s_id s = sid \<longrightarrow> s_user_id s \<noteq> u"
  then show "get_session_messages db sid limit offset (Some u) = []"
    by (simp add: get_session_messages_def get_session_by_id_not_owned)
next
  assume "\<forall>m \<in> set (messages db). m_session_id m \<noteq> sid"
  then have "filter (\<lambda>m. m_session_id m = sid) (messages db) = []"
    by (auto simp: filter_empty_conv)
  then show "get_session_messages db sid limit offset (Some u) = []"
    by (simp add: get_session_messages_def split: option.split)
qed

theorem get_session_messages_hides_foreign_sessions_witness:
  "get_session_messages example_db (UUID 2) 100 0 (Some (UUID 10)) = [] \<and>
   get_session_messages example_db (UUID 99) 100 0 (Some (UUID 10)) = [] \<and>
   get_session_messages example_db (UUID 3) 100 0 (Some (UUID 10)) = [] \<and>
   get_session_by_id example_db (UUID 3) (Some (UUID 10)) \<noteq> None \<and>
   map m_content (get_session_messages example_db (UUID 2) 100 0 (Some (UUID 11))) = [''What is the budget?'']"
proof -
  have a: "\<forall>s \<in> set (sessions example_db). s_id s = UUID 2 \<longrightarrow> s_user_id s \<noteq> UUID 10"
    by (simp add: example_db_def)
  have b: "\<forall>s \<in> set (sessions example_db). s_id s = UUID 99 \<longrightarrow> s_user_id s \<noteq> UUID 10"
    by (simp add: example_db_def)
  have c: "\<forall>m \<in> set (messages example_db). m_session_id m \<noteq> UUID 3"
    by (simp add: example_db_def example_message_def)
  have d: "get_session_by_id example_db (UUID 3) (Some (UUID 10)) \<noteq> None"
    by (simp add: example_db_def get_session_by_id_def session_matches_def scalar_one_or_none_def)
  have e: "map m_content (get_session_messages example_db (UUID 2) 100 0 (Some (UUID 11))) = [''What is the budget?'']"
    by (simp add: example_db_def get_session_messages_def get_session_by_id_def session_matches_def
        scalar_one_or_none_def example_message_def)
  have 1: "get_session_messages example_db (UUID 2) 100 0 (Some (UUID 10)) = []"
    by (rule get_session_messages_hides_foreign_sessions [THEN conjunct1, THEN mp, OF a])
  have 2: "get_session_messages example_db (UUID 99) 100 0 (Some (UUID 10)) = []"
    by (rule get_session_messages_hides_foreign_sessions [THEN conjunct1, THEN mp, OF b])
  have 3: "get_session_messages example_db (UUID 3) 100 0 (Some (UUID 10)) = []"
    by (rule get_session_messages_hides_foreign_sessions [THEN conjunct2, THEN mp, OF c])
  from 1 2 3 d e show ?thesis by (intro conjI)
qed

text \<open>
  Claim C10, as amended. Clearing an existing session of the user leaves all messages
  (and all documents) as they are. In the table of sessions it changes the row of the
  session only: the title becomes \<open>New Chat\<close> and \<open>updated_at\<close> is refreshed by the update.
\<close>

theorem clear_session_messages_frame:
  assumes "get_session_by_id db sid (Some u) = Some s"
  shows "\<exists>db'. clear_session_messages db sid u = (db', Inr ()) \<and>
           messages db' = messages db \<and> documents db' = documents db \<and>
           sessions db' =
             map (\<lambda>x. if s_id x = sid \<and> s_user_id x = u
                       then x\<lparr>s_title := ''New Chat'', s_updated_at := clock db\<rparr> else x)
                 (sessions db)"
  using assms
  by (simp add: clear_session_messages_def update_session_def update_sessions_def commit_def
      Let_def session_matches_def split: prod.split)

theorem clear_session_messages_frame_witness:
  "get_session_by_id example_db (UUID 1) (Some (UUID 10)) =
     Some \<lparr>s_id = UUID 1, s_user_id = UUID 10, s_title = ''Plans'', s_created_at = 1, s_updated_at = 3\<rparr> \<and>
   (\<exists>db'. clear_session_messages example_db (UUID 1) (UUID 10) = (db', Inr ()) \<and>
           messages db' = messages example_db \<and> documents db' = documents example_db \<and>
           sessions db' =
             map (\<lambda>x. if s_id x = UUID 1 \<and> s_user_id x = UUID 10
                       then x\<lparr>s_title := ''New Chat'', s_updated_at := clock example_db\<rparr> else x)
                 (sessions example_db))"
proof -
  have a: "get_session_by_id example_db (UUID 1) (Some (UUID 10)) =
     Some \<lparr>s_id = UUID 1, s_user_id = UUID 10, s_title = ''Plans'', s_created_at = 1, s_updated_at = 3\<rparr>"
    by (simp add: example_db_def get_session_by_id_def session_matches_def scalar_one_or_none_def)
  from a clear_session_messages_frame [OF a] show ?thesis by (intro conjI)
qed

text \<open>
  The claim as stated, that the title is the only change, fails: for the first session of
  the example the rows after the call differ from the rows with only the title replaced.
\<close>

theorem clear_session_messages_touches_updated_at:
  "sessions (fst (clear_session_messages example_db (UUID 1) (UUID 10))) \<noteq>
     map (\<lambda>x. if s_id x = UUID 1 \<and> s_user_id x = UUID 10 then x\<lparr>s_title := ''New Chat''\<rparr> else x)
         (sessions example_db)"
  by (simp add: clear_session_messages_def update_session_def update_sessions_def commit_def
      Let_def session_matches_def example_db_def get_session_by_id_def scalar_one_or_none_def)

section \<open>Sources and the two empty contexts\<close>

text \<open>
  Claim C7, as amended. Source extraction gives one source per passage, in order. The
  source copies the document id, the document name and the score of its passage. Its
  snippet is the content of the passage when that has at most 200 characters, and
  otherwise the first 200 characters followed by three dots. Its page number is the
  \<open>page\<close> entry of the metadata (parsed first when the metadata is text) when the
  metadata is a dict and the entry is there and truthy; otherwise there is none.
\<close>

theorem extract_sources_one_per_passage:
  "length (extract_sources_from_search l rs) = length rs \<and>
   (\<forall>i < length rs.
      src_document_id (extract_sources_from_search l rs ! i) = r_document_id (rs ! i) \<and>
      src_document_name (extract_sources_from_search l rs ! i) = r_document_name (rs ! i) \<and>
      src_relevance_score (extract_sources_from_search l rs ! i) = r_score (rs ! i) \<and>
      src_snippet (extract_sources_from_search l rs ! i) =
        (if length (r_content (rs ! i)) \<le> 200 then r_content (rs ! i)
         else take 200 (r_content (rs ! i)) @ ''...'') \<and>
      src_page_number (extract_sources_from_search l rs ! i) =
        (case parse_metadata l (r_metadata (rs ! i)) of
           JDict kvs \<Rightarrow> (case map_of kvs ''page'' of
                           Some p \<Rightarrow> if truthy p then Some p else None
                         | None \<Rightarrow> None)
         | _ \<Rightarrow> None))"
  by (simp add: extract_sources_from_search_def page_of_def)

theorem extract_sources_one_per_passage_witness:
  "length (extract_sources_from_search example_lib [short_result, long_result]) = 2 \<and>
   src_relevance_score (extract_sources_from_search example_lib [short_result, long_result] ! 0) = 0.75 \<and>
   src_snippet (extract_sources_from_search example_lib [short_result, long_result] ! 0) = ''Meeting at 3pm Tuesday'' \<and>
   src_page_number (extract_sources_from_search example_lib [short_result, long_result] ! 0) = Some (JInt 3) \<and>
   src_snippet (extract_sources_from_search example_lib [short_result, long_result] ! 1) = replicate 200 (CHR ''a'') @ ''...'' \<and>
   src_page_number (extract_sources_from_search example_lib [short_result, long_result] ! 1) = None"
proof -
  note t = extract_sources_one_per_passage [of example_lib "[short_result, long_result]"]
  have 0: "(0::nat) < length [short_result, long_result]" by simp
  have 1: "(1::nat) < length [short_result, long_result]" by simp
  from t have len: "length (extract_sources_from_search example_lib [short_result, long_result]) = 2"
    by simp
  note t0 = t [THEN conjunct2, THEN spec, THEN mp, OF 0]
  note t1 = t [THEN conjunct2, THEN spec, THEN mp, OF 1]
  from t0 have a: "src_relevance_score (extract_sources_from_search example_lib [short_result, long_result] ! 0) = 0.75"
    by (simp add: short_result_def example_result_def)
  from t0 have b: "src_snippet (extract_sources_from_search example_lib [short_result, long_result] ! 0) = ''Meeting at 3pm Tuesday''"
    by (simp add: short_result_def example_result_def)
  from t0 have c: "src_page_number (extract_sources_from_search example_lib [short_result, long_result] ! 0) = Some (JInt 3)"
    by (simp add: short_result_def example_result_def parse_metadata_def)
  from t1 have d: "src_snippet (extract_sources_from_search example_lib [short_result, long_result] ! 1) = replicate 200 (CHR ''a'') @ ''...''"
    by (simp add: long_result_def example_result_def)
  from t1 have e: "src_page_number (extract_sources_from_search example_lib [short_result, long_result] ! 1) = None"
    by (simp add: long_result_def example_result_def parse_metadata_def example_lib_def)
  from len a b c d e show ?thesis by (intro conjI)
qed

text \<open>
  The claim as stated, that the snippet is the first 200 characters of the content, fails
  for a passage of 201 characters: its snippet has 203.
\<close>

theorem snippet_longer_than_200:
  "map src_snippet (extract_sources_from_search example_lib [long_result]) \<noteq>
     map (\<lambda>r. take 200 (r_content r)) [long_result]"
  by (simp add: extract_sources_from_search_def long_result_def example_result_def)


lemma library_marker_not_selected:
  "\<not> sublist ''No relevant content found in the selected''
     ''No relevant documents found in your document library.''"
  by (simp add: sublist_code(3))

lemma library_marker_recognised:
  "sublist ''No relevant documents found'' ''No relevant documents found in your document library.''"
  by (simp add: sublist_code(3))


lemma example_question_no_greeting:
  "\<not> sublist ''hello'' (lower ''When is the meeting?'') \<and> \<not> sublist ''hi'' (lower ''When is the meeting?'')"
  by (simp add: lower_def lower_char_def sublist_code(3))







section \<open>The chat turn\<close>

lemma fallback_not_empty:
  "generate_fallback_openai_response msg context \<noteq> []"
  by (simp add: generate_fallback_openai_response_def greeting_answer_def selected_empty_answer_def
      library_empty_answer_def some_context_answer_def)

lemma fallback_rule:
  "generate_fallback_openai_response msg ctx =
     (if sublist ''hello'' (lower msg) \<or> sublist ''hi'' (lower msg) then greeting_answer
      else if sublist ''No relevant content found in the selected'' ctx then selected_empty_answer msg
      else if sublist ''No relevant documents found'' ctx then library_empty_answer msg
      else some_context_answer msg)"
  by (simp add: generate_fallback_openai_response_def)

lemma answers_distinct:
  "distinct [greeting_answer, selected_empty_answer msg, library_empty_answer msg,
             some_context_answer msg]"
  by (simp add: greeting_answer_def selected_empty_answer_def library_empty_answer_def
      some_context_answer_def)

lemma answers_not_empty:
  "greeting_answer \<noteq> [] \<and> selected_empty_answer msg \<noteq> [] \<and>
   library_empty_answer msg \<noteq> [] \<and> some_context_answer msg \<noteq> []"
  by (simp add: greeting_answer_def selected_empty_answer_def library_empty_answer_def
      some_context_answer_def)

lemma storable_fallback:
  "storable msg \<Longrightarrow> storable (generate_fallback_openai_response msg ctx)"
  by (simp add: generate_fallback_openai_response_def greeting_answer_def
      selected_empty_answer_def library_empty_answer_def some_context_answer_def
      storable_def apos_def)

lemma generate_openai_response_unavailable:
  assumes "\<forall>c. client = Some c \<longrightarrow> isl (complete c (completion_messages msg context conversation ds))"
  shows "generate_openai_response client msg context conversation ds =
           Some (generate_fallback_openai_response msg context)"
proof (cases client)
  case None
  then show ?thesis by (simp add: generate_openai_response_def)
next
  case (Some c)
  with assms have "isl (complete c (completion_messages msg context conversation ds))" by simp
  then obtain e where "complete c (completion_messages msg context conversation ds) = Inl e"
    by (cases "complete c (completion_messages msg context conversation ds)") auto
  with Some show ?thesis by (simp add: generate_openai_response_def)
qed

lemma generate_chat_response_unavailable:
  assumes "\<forall>c. openai_client env = Some c \<longrightarrow>
      isl (complete c (completion_messages msg
        (build_context_from_search (lib env) (search_documents (search_client env) msg u 5 ds) ds)
        (build_conversation_history history) ds))"
  shows "generate_chat_response env msg history u ds =
           Some \<lparr>ar_content = Some (generate_fallback_openai_response msg
                    (build_context_from_search (lib env)
                       (search_documents (search_client env) msg u 5 ds) ds)),
                 ar_sources = extract_sources_from_search (lib env)
                       (search_documents (search_client env) msg u 5 ds)\<rparr>"
  using generate_openai_response_unavailable [OF assms]
  by (simp add: generate_chat_response_def Let_def)

subsection \<open>Sessions and messages across the statements of a turn\<close>

lemma scalar_one_or_none_map:
  "scalar_one_or_none (map g xs) = map_sum id (map_option g) (scalar_one_or_none xs)"
  by (cases xs rule: list.exhaust [case_product list.exhaust])
     (auto simp: scalar_one_or_none_def split: list.split)

lemma filter_map_keeping:
  "(\<And>x. P (g x) = P x) \<Longrightarrow> filter P (map g xs) = map g (filter P xs)"
  by (induction xs) auto

lemma get_session_by_id_cong:
  "sessions db' = sessions db \<Longrightarrow> get_session_by_id db' sid u = get_session_by_id db sid u"
  by (simp add: get_session_by_id_def)

lemma get_session_by_id_map:
  assumes "\<And>x. s_id (g x) = s_id x" "\<And>x. s_user_id (g x) = s_user_id x"
    and "sessions db' = map g (sessions db)"
  shows "get_session_by_id db' sid u = map_option g (get_session_by_id db sid u)"
proof -
  have "\<And>x. session_matches sid u (g x) = session_matches sid u x"
    by (simp add: session_matches_def assms(1,2) split: option.split)
  then have "filter (session_matches sid u) (map g (sessions db)) =
             map g (filter (session_matches sid u) (sessions db))"
    by (rule filter_map_keeping)
  then show ?thesis
    by (cases "scalar_one_or_none (filter (session_matches sid u) (sessions db))")
       (simp_all add: get_session_by_id_def assms(3) scalar_one_or_none_map)
qed

lemma add_message_found:
  assumes "get_session_by_id db sid u = Some s"
    and "storable (mc_role md)" "storable (mc_content md)"
  shows "add_message db sid md u =
           (db\<lparr>messages := messages db @
                   [\<lparr>m_id = UUID (next_uuid db), m_session_id = sid, m_role = mc_role md,
                     m_content = mc_content md, m_sources = mc_sources md,
                     m_created_at = clock db\<rparr>],
                next_uuid := next_uuid db + 1,
                sessions := map (touch sid (clock db + 1)) (sessions db),
                clock := clock db + 2\<rparr>,
            Some \<lparr>m_id = UUID (next_uuid db), m_session_id = sid, m_role = mc_role md,
                  m_content = mc_content md, m_sources = mc_sources md,
                  m_created_at = clock db\<rparr>)"
  using assms
  by (simp add: add_message_def Let_def update_session_timestamp_def update_sessions_def
      commit_def touch_def cong: map_cong)

lemma add_message_not_found:
  "get_session_by_id db sid u = None \<Longrightarrow> add_message db sid md u = (db, None)"
  by (simp add: add_message_def)

lemma add_message_SomeD:
  assumes "add_message db sid md u = (db', Some m)"
  shows "(\<exists>s. get_session_by_id db sid u = Some s) \<and> storable (mc_role md) \<and>
         storable (mc_content md)"
proof (cases "get_session_by_id db sid u")
  case None
  with assms show ?thesis by (simp add: add_message_def)
next
  case (Some s)
  show ?thesis
  proof (cases "storable (mc_role md) \<and> storable (mc_content md)")
    case True
    with Some show ?thesis by simp
  next
    case False
    with Some assms show ?thesis by (simp add: add_message_def Let_def)
  qed
qed


lemma get_session_by_id_SomeD:
  "get_session_by_id db sid u = Some s \<Longrightarrow> s \<in> set (sessions db) \<and> session_matches sid u s"
proof -
  assume a: "get_session_by_id db sid u = Some s"
  then have "filter (session_matches sid u) (sessions db) = [s]"
    by (auto simp: get_session_by_id_def scalar_one_or_none_def split: list.splits sum.splits)
  then have "s \<in> set (filter (session_matches sid u) (sessions db))" by simp
  then show ?thesis by simp
qed

lemma get_session_by_id_after_add_message:
  assumes "get_session_by_id db sid u = Some s"
    and "storable (mc_role md)" "storable (mc_content md)"
  shows "get_session_by_id (fst (add_message db sid md u)) sid u = Some (s\<lparr>s_updated_at := clock db + 1\<rparr>)"
proof -
  have "get_session_by_id (fst (add_message db sid md u)) sid u =
          map_option (touch sid (clock db + 1)) (get_session_by_id db sid u)"
    by (rule get_session_by_id_map) (simp_all add: add_message_found [OF assms] touch_def)
  moreover from get_session_by_id_SomeD [OF assms(1)] have "s_id s = sid"
    by (simp add: session_matches_def)
  ultimately show ?thesis using assms(1) by (simp add: touch_def)
qed

lemma messages_after_add_message:
  assumes "get_session_by_id db sid u = Some s"
    and "storable (mc_role md)" "storable (mc_content md)"
  shows "filter (\<lambda>m. m_session_id m = sid) (messages (fst (add_message db sid md u))) =
           filter (\<lambda>m. m_session_id m = sid) (messages db) @ [the (snd (add_message db sid md u))]"
  by (simp add: add_message_found [OF assms])

lemma get_session_by_id_after_title:
  assumes "get_session_by_id db sid u = Some s"
  shows "get_session_by_id (update_session_title db sid msg) sid u =
           Some (s\<lparr>s_title := (if length msg > 50 then strip (take 50 msg) @ ''...''
                                else strip (take 50 msg)),
                   s_updated_at := clock db\<rparr>)"
proof -
  let ?t = "if length msg > 50 then strip (take 50 msg) @ ''...'' else strip (take 50 msg)"
  let ?g = "\<lambda>x. if s_id x = sid then x\<lparr>s_title := ?t, s_updated_at := clock db\<rparr> else x"
  have "get_session_by_id (update_session_title db sid msg) sid u =
          map_option ?g (get_session_by_id db sid u)"
    by (rule get_session_by_id_map)
       (simp_all add: update_session_title_def update_sessions_def commit_def Let_def)
  moreover from get_session_by_id_SomeD [OF assms] have "s_id s = sid"
    by (simp add: session_matches_def)
  ultimately show ?thesis using assms by simp
qed

lemma messages_after_title:
  "messages (update_session_title db sid msg) = messages db"
  by (simp add: update_session_title_def update_sessions_def commit_def Let_def)

lemma storable_role:
  "storable ''user'' \<and> storable ''assistant''"
  by (simp add: storable_def)

text \<open>
  A turn on a session of the user, with a message and an answer that pass validation and
  that the store accepts.
\<close>

lemma process_chat_message_answering:
  assumes found: "get_session_by_id db sid (Some u) = Some s"
    and msg: "msg \<noteq> []" "storable msg"
    and db1: "db1 = fst (add_message db sid \<lparr>mc_role = ''user'', mc_content = msg, mc_sources = None\<rparr> (Some u))"
    and dss: "dss = (case ds of None \<Rightarrow> None | Some ds \<Rightarrow> if ds \<noteq> [] then Some (map str_uuid ds) else None)"
    and ans: "generate_chat_response env msg (get_session_messages db1 sid 20 0 (Some u)) (str_uuid u) dss = Some r"
    and c: "ar_content r = Some c" "c \<noteq> []" "storable c"
  shows "\<exists>db2 m. add_message db1 sid \<lparr>mc_role = ''assistant'', mc_content = c, mc_sources = Some (ar_sources r)\<rparr> (Some u) = (db2, Some m) \<and>
           m_role m = ''assistant'' \<and> m_content m = c \<and> m_sources m = Some (ar_sources r) \<and>
           messages db2 = messages db1 @ [m] \<and>
           get_session_by_id db2 sid (Some u) \<noteq> None \<and>
           process_chat_message env db u sid msg ds =
             ((if length (get_session_messages db1 sid 20 0 (Some u)) \<le> 2
               then update_session_title db2 sid msg else db2), Some m)"
proof -
  let ?um = "\<lparr>mc_role = ''user'', mc_content = msg, mc_sources = None\<rparr>"
  let ?am = "\<lparr>mc_role = ''assistant'', mc_content = c, mc_sources = Some (ar_sources r)\<rparr>"
  have su: "storable (mc_role ?um)" "storable (mc_content ?um)"
    and sa: "storable (mc_role ?am)" "storable (mc_content ?am)"
    using msg(2) c(3) storable_role by simp_all
  from msg have v1: "ChatMessageCreate ''user'' (Some msg) None = Some ?um"
    by (cases msg) (simp_all add: ChatMessageCreate_def)
  from c have v2: "ChatMessageCreate ''assistant'' (ar_content r) (Some (ar_sources r)) = Some ?am"
    by (cases c) (simp_all add: ChatMessageCreate_def)
  obtain um where a1: "add_message db sid ?um (Some u) = (db1, Some um)"
    using add_message_found [OF found su] db1 by simp
  have found1: "get_session_by_id db1 sid (Some u) = Some (s\<lparr>s_updated_at := clock db + 1\<rparr>)"
    unfolding db1 by (rule get_session_by_id_after_add_message [OF found su])
  obtain db2 m where a2: "add_message db1 sid ?am (Some u) = (db2, Some m)"
    and m: "m_role m = ''assistant''" "m_content m = c" "m_sources m = Some (ar_sources r)"
    and ms: "messages db2 = messages db1 @ [m]"
    using add_message_found [OF found1 sa] by simp
  have found2: "get_session_by_id db2 sid (Some u) \<noteq> None"
    using get_session_by_id_after_add_message [OF found1 sa] a2 by simp
  have "process_chat_message env db u sid msg ds =
             ((if length (get_session_messages db1 sid 20 0 (Some u)) \<le> 2
               then update_session_title db2 sid msg else db2), Some m)"
    using ans by (simp add: process_chat_message_def v1 a1 dss [symmetric] v2 a2 Let_def)
  with a2 m ms found2 show ?thesis by (intro exI [of _ db2] exI [of _ m] conjI)
qed

lemma history_length:
  assumes "get_session_by_id db sid u = Some s"
    and "storable (mc_role md)" "storable (mc_content md)"
  shows "length (get_session_messages (fst (add_message db sid md u)) sid 20 0 u) =
           min 20 (length (filter (\<lambda>m. m_session_id m = sid) (messages db)) + 1)"
  using get_session_by_id_after_add_message [OF assms]
  by (simp add: get_session_messages_def messages_after_add_message [OF assms])

text \<open>
  Claim C8. When a chat turn succeeds and the session, with the message of the user
  just added, holds at most 2 messages, the turn ends with the title of the session set
  and stored: the first 50 characters of the message with the white space at both ends
  removed, followed by three dots exactly when the message has more than 50 characters.
\<close>

theorem first_exchange_sets_title:
  assumes turn: "process_chat_message env db u sid msg ds = (db', Some ai_msg)"
    and first: "length (filter (\<lambda>m. m_session_id m = sid) (messages db)) + 1 \<le> 2"
  shows "\<exists>s. get_session_by_id db' sid (Some u) = Some s \<and>
           s_title s = (if length msg > 50 then strip (take 50 msg) @ ''...''
                        else strip (take 50 msg))"
proof -
  let ?um = "\<lparr>mc_role = ''user'', mc_content = msg, mc_sources = None\<rparr>"
  let ?dss = "case ds of None \<Rightarrow> None | Some ds \<Rightarrow> if ds \<noteq> [] then Some (map str_uuid ds) else None"
  from turn have msg: "msg \<noteq> []"
    by (auto simp: process_chat_message_def ChatMessageCreate_def)
  then have v1: "ChatMessageCreate ''user'' (Some msg) None = Some ?um"
    by (cases msg) (simp_all add: ChatMessageCreate_def)
  obtain db1 x where a1': "add_message db sid ?um (Some u) = (db1, x)"
    by (cases "add_message db sid ?um (Some u)")
  with turn v1 obtain um where "x = Some um"
    by (cases x) (simp_all add: process_chat_message_def)
  with a1' have a1: "add_message db sid ?um (Some u) = (db1, Some um)" by simp
  from add_message_SomeD [OF a1] obtain s
    where found: "get_session_by_id db sid (Some u) = Some s" and st: "storable msg"
    by auto
  have su: "storable (mc_role ?um)" "storable (mc_content ?um)"
    using st storable_role by simp_all
  from a1 have db1: "db1 = fst (add_message db sid ?um (Some u))" by simp
  let ?h = "get_session_messages db1 sid 20 0 (Some u)"
  obtain r where r: "generate_chat_response env msg ?h (str_uuid u) ?dss = Some r"
    by (simp add: generate_chat_response_def Let_def)
  have "\<exists>c. ar_content r = Some c \<and> c \<noteq> []"
  proof (rule ccontr)
    assume "\<not> (\<exists>c. ar_content r = Some c \<and> c \<noteq> [])"
    then have "ChatMessageCreate ''assistant'' (ar_content r) (Some (ar_sources r)) = None"
      by (cases "ar_content r") (auto simp: ChatMessageCreate_def)
    with turn show False by (simp add: process_chat_message_def v1 a1 r)
  qed
  then obtain c where c: "ar_content r = Some c" "c \<noteq> []" by blast
  let ?am = "\<lparr>mc_role = ''assistant'', mc_content = c, mc_sources = Some (ar_sources r)\<rparr>"
  from c have v2: "ChatMessageCreate ''assistant'' (ar_content r) (Some (ar_sources r)) = Some ?am"
    by (cases c) (simp_all add: ChatMessageCreate_def)
  obtain db2 y where a2': "add_message db1 sid ?am (Some u) = (db2, y)"
    by (cases "add_message db1 sid ?am (Some u)")
  with turn have "y = Some ai_msg"
    by (simp add: process_chat_message_def v1 a1 r v2 Let_def)
  with a2' have "add_message db1 sid ?am (Some u) = (db2, Some ai_msg)" by simp
  from add_message_SomeD [OF this] have stc: "storable c" by simp
  from process_chat_message_answering [OF found msg st db1 refl r c stc]
  obtain db3 m where found2: "get_session_by_id db3 sid (Some u) \<noteq> None"
    and res: "process_chat_message env db u sid msg ds =
               ((if length ?h \<le> 2 then update_session_title db3 sid msg else db3), Some m)"
    by blast
  from history_length [OF found su] first have "length ?h \<le> 2"
    unfolding db1 by simp
  with res turn have db': "db' = update_session_title db3 sid msg" by simp
  from found2 obtain s2 where "get_session_by_id db3 sid (Some u) = Some s2" by blast
  from get_session_by_id_after_title [OF this, of msg] db' show ?thesis by simp
qed

lemma example_session_found:
  "get_session_by_id example_db (UUID 3) (Some (UUID 10)) =
     Some \<lparr>s_id = UUID 3, s_user_id = UUID 10, s_title = ''New Chat'', s_created_at = 6, s_updated_at = 6\<rparr>"
  by (simp add: example_db_def get_session_by_id_def session_matches_def scalar_one_or_none_def)

lemma failing_services_unavailable:
  "\<forall>c ms. openai_client failing_services = Some c \<longrightarrow> isl (complete c ms)"
  by (auto simp: failing_services_def)

lemma process_chat_message_fallback:
  assumes found: "get_session_by_id db sid (Some u) = Some s"
    and msg: "msg \<noteq> []" "storable msg"
    and db1: "db1 = fst (add_message db sid \<lparr>mc_role = ''user'', mc_content = msg, mc_sources = None\<rparr> (Some u))"
    and dss: "dss = (case ds of None \<Rightarrow> None | Some ds \<Rightarrow> if ds \<noteq> [] then Some (map str_uuid ds) else None)"
    and res: "results = search_documents (search_client env) msg (str_uuid u) 5 dss"
    and ctx: "ctx = build_context_from_search (lib env) results dss"
    and un: "\<forall>c. openai_client env = Some c \<longrightarrow>
               isl (complete c (completion_messages msg ctx
                 (build_conversation_history (get_session_messages db1 sid 20 0 (Some u))) dss))"
  shows "\<exists>db' m. process_chat_message env db u sid msg ds = (db', Some m) \<and>
           m_role m = ''assistant'' \<and>
           m_content m = generate_fallback_openai_response msg ctx \<and>
           m_sources m = Some (extract_sources_from_search (lib env) results) \<and>
           m \<in> set (messages db')"
proof -
  let ?h = "get_session_messages db1 sid 20 0 (Some u)"
  let ?r = "\<lparr>ar_content = Some (generate_fallback_openai_response msg ctx),
             ar_sources = extract_sources_from_search (lib env) results\<rparr>"
  have r: "generate_chat_response env msg ?h (str_uuid u) dss = Some ?r"
    unfolding ctx res by (rule generate_chat_response_unavailable) (rule un [unfolded ctx res])
  have c: "ar_content ?r = Some (generate_fallback_openai_response msg ctx)" by simp
  from process_chat_message_answering [OF found msg db1 dss r c fallback_not_empty
      storable_fallback [OF msg(2)]]
  obtain db2 m where m: "m_role m = ''assistant''"
      "m_content m = generate_fallback_openai_response msg ctx"
      "m_sources m = Some (extract_sources_from_search (lib env) results)"
    and ms: "messages db2 = messages db1 @ [m]"
    and turn: "process_chat_message env db u sid msg ds =
             ((if length ?h \<le> 2 then update_session_title db2 sid msg else db2), Some m)"
    by auto
  let ?db' = "if length ?h \<le> 2 then update_session_title db2 sid msg else db2"
  from ms have "m \<in> set (messages ?db')" by (simp add: messages_after_title)
  with turn m show ?thesis by (intro exI [of _ ?db'] exI [of _ m] conjI)
qed

theorem first_exchange_sets_title_witness:
  "length (filter (\<lambda>m. m_session_id m = UUID 3) (messages example_db)) + 1 \<le> 2 \<and>
   length long_question > 50 \<and>
   (\<exists>db' m. process_chat_message failing_services example_db (UUID 10) (UUID 3) long_question None
               = (db', Some m) \<and>
      (\<exists>s. get_session_by_id db' (UUID 3) (Some (UUID 10)) = Some s \<and>
           s_title s = ''Please summarise the decisions taken at the plan...''))"
proof -
  have first: "length (filter (\<lambda>m. m_session_id m = UUID 3) (messages example_db)) + 1 \<le> 2"
    by (simp add: example_db_def example_message_def)
  have len: "length long_question > 50" by (simp add: long_question_def)
  have ne: "long_question \<noteq> []" by (simp add: long_question_def)
  have title: "strip (take 50 long_question) @ ''...'' = ''Please summarise the decisions taken at the plan...''"
    by (simp add: long_question_def strip_def isspace_def)
  have st: "storable long_question" by (simp add: long_question_def storable_def)
  have un: "\<forall>c. openai_client failing_services = Some c \<longrightarrow> isl (complete c ms)" for ms
    using failing_services_unavailable by simp
  from process_chat_message_fallback [OF example_session_found ne st refl refl refl refl un, of None]
  obtain db' m where turn: "process_chat_message failing_services example_db (UUID 10) (UUID 3)
      long_question None = (db', Some m)" by blast
  from first_exchange_sets_title [OF turn first] len title
  have "\<exists>s. get_session_by_id db' (UUID 3) (Some (UUID 10)) = Some s \<and>
           s_title s = ''Please summarise the decisions taken at the plan...''" by simp
  with turn have "\<exists>db' m. process_chat_message failing_services example_db (UUID 10) (UUID 3) long_question None
               = (db', Some m) \<and>
      (\<exists>s. get_session_by_id db' (UUID 3) (Some (UUID 10)) = Some s \<and>
           s_title s = ''Please summarise the decisions taken at the plan...'')"
    by (intro exI [of _ db'] exI [of _ m] conjI)
  with first len show ?thesis by (intro conjI)
qed

text \<open>
  Claim C4. (1) When no completion client is configured, or the call of this turn to
  the client raises, \<open>_generate_openai_response\<close> returns the answer that the rules
  select from the message and the context of this turn: the greeting answer when the
  lower-cased message contains \<open>hello\<close> or \<open>hi\<close>, else the answer for an empty selection
  when the context carries that marker, else the answer for an empty library when the
  context carries that marker, else the answer for some context. (2) The four answers
  are pairwise different and none is empty. (3) Under the same condition
  \<open>generate_chat_response\<close> returns that answer, computed from the context built from the
  passages retrieved for this message, with the sources of those passages. (4) A chat
  turn on a session of the user, with a non-empty message that the store accepts, then
  ends with an assistant message whose content is that answer and whose sources are
  those sources, and the message is a row of the store afterwards.
\<close>

theorem completion_failure_falls_back:
  "((\<forall>c. openai_client env = Some c \<longrightarrow>
        isl (complete c (completion_messages msg ctx conversation ds))) \<longrightarrow>
      generate_openai_response (openai_client env) msg ctx conversation ds =
        Some (if sublist ''hello'' (lower msg) \<or> sublist ''hi'' (lower msg)
              then greeting_answer
              else if sublist ''No relevant content found in the selected'' ctx
              then selected_empty_answer msg
              else if sublist ''No relevant documents found'' ctx
              then library_empty_answer msg
              else some_context_answer msg)) \<and>
   distinct [greeting_answer, selected_empty_answer msg, library_empty_answer msg,
             some_context_answer msg] \<and>
   [] \<notin> set [greeting_answer, selected_empty_answer msg, library_empty_answer msg,
              some_context_answer msg] \<and>
   (let results = search_documents (search_client env) msg u 5 ds;
        found_context = build_context_from_search (lib env) results ds
    in (\<forall>c. openai_client env = Some c \<longrightarrow>
          isl (complete c (completion_messages msg found_context
                 (build_conversation_history history) ds))) \<longrightarrow>
       generate_chat_response env msg history u ds =
         Some \<lparr>ar_content = Some (generate_fallback_openai_response msg found_context),
               ar_sources = extract_sources_from_search (lib env) results\<rparr>) \<and>
   (let db1 = fst (add_message db sid
                     \<lparr>mc_role = ''user'', mc_content = msg, mc_sources = None\<rparr> (Some uid));
        stored = get_session_messages db1 sid 20 0 (Some uid);
        dss = (case dids of None \<Rightarrow> None
               | Some l \<Rightarrow> if l \<noteq> [] then Some (map str_uuid l) else None);
        results = search_documents (search_client env) msg (str_uuid uid) 5 dss;
        found_context = build_context_from_search (lib env) results dss
    in get_session_by_id db sid (Some uid) = Some s \<and> msg \<noteq> [] \<and> storable msg \<and>
       (\<forall>c. openai_client env = Some c \<longrightarrow>
          isl (complete c (completion_messages msg found_context
                 (build_conversation_history stored) dss))) \<longrightarrow>
       (\<exists>db' m. process_chat_message env db uid sid msg dids = (db', Some m) \<and>
          m_role m = ''assistant'' \<and>
          m_content m = generate_fallback_openai_response msg found_context \<and>
          m_sources m = Some (extract_sources_from_search (lib env) results) \<and>
          m \<in> set (messages db')))"
proof (intro conjI)
  show "(\<forall>c. openai_client env = Some c \<longrightarrow>
        isl (complete c (completion_messages msg ctx conversation ds))) \<longrightarrow>
      generate_openai_response (openai_client env) msg ctx conversation ds =
        Some (if sublist ''hello'' (lower msg) \<or> sublist ''hi'' (lower msg)
              then greeting_answer
              else if sublist ''No relevant content found in the selected'' ctx
              then selected_empty_answer msg
              else if sublist ''No relevant documents found'' ctx
              then library_empty_answer msg
              else some_context_answer msg)"
  proof
    assume "\<forall>c. openai_client env = Some c \<longrightarrow>
        isl (complete c (completion_messages msg ctx conversation ds))"
    from generate_openai_response_unavailable [OF this] show
      "generate_openai_response (openai_client env) msg ctx conversation ds =
        Some (if sublist ''hello'' (lower msg) \<or> sublist ''hi'' (lower msg)
              then greeting_answer
              else if sublist ''No relevant content found in the selected'' ctx
              then selected_empty_answer msg
              else if sublist ''No relevant documents found'' ctx
              then library_empty_answer msg
              else some_context_answer msg)"
      unfolding fallback_rule .
  qed
  show "distinct [greeting_answer, selected_empty_answer msg, library_empty_answer msg,
             some_context_answer msg]" by (rule answers_distinct)
  show "[] \<notin> set [greeting_answer, selected_empty_answer msg, library_empty_answer msg,
              some_context_answer msg]"
    using answers_not_empty [of msg] by (simp add: eq_commute [of "[]"])
  show "let results = search_documents (search_client env) msg u 5 ds;
        found_context = build_context_from_search (lib env) results ds
    in (\<forall>c. openai_client env = Some c \<longrightarrow>
          isl (complete c (completion_messages msg found_context
                 (build_conversation_history history) ds))) \<longrightarrow>
       generate_chat_response env msg history u ds =
         Some \<lparr>ar_content = Some (generate_fallback_openai_response msg found_context),
               ar_sources = extract_sources_from_search (lib env) results\<rparr>"
    unfolding Let_def
  proof
    assume "\<forall>c. openai_client env = Some c \<longrightarrow>
          isl (complete c (completion_messages msg
                 (build_context_from_search (lib env)
                    (search_documents (search_client env) msg u 5 ds) ds)
                 (build_conversation_history history) ds))"
    then show "generate_chat_response env msg history u ds =
         Some \<lparr>ar_content = Some (generate_fallback_openai_response msg
                  (build_context_from_search (lib env)
                    (search_documents (search_client env) msg u 5 ds) ds)),
               ar_sources = extract_sources_from_search (lib env)
                    (search_documents (search_client env) msg u 5 ds)\<rparr>"
      by (rule generate_chat_response_unavailable)
  qed
  show "let db1 = fst (add_message db sid
                     \<lparr>mc_role = ''user'', mc_content = msg, mc_sources = None\<rparr> (Some uid));
        stored = get_session_messages db1 sid 20 0 (Some uid);
        dss = (case dids of None \<Rightarrow> None
               | Some l \<Rightarrow> if l \<noteq> [] then Some (map str_uuid l) else None);
        results = search_documents (search_client env) msg (str_uuid uid) 5 dss;
        found_context = build_context_from_search (lib env) results dss
    in get_session_by_id db sid (Some uid) = Some s \<and> msg \<noteq> [] \<and> storable msg \<and>
       (\<forall>c. openai_client env = Some c \<longrightarrow>
          isl (complete c (completion_messages msg found_context
                 (build_conversation_history stored) dss))) \<longrightarrow>
       (\<exists>db' m. process_chat_message env db uid sid msg dids = (db', Some m) \<and>
          m_role m = ''assistant'' \<and>
          m_content m = generate_fallback_openai_response msg found_context \<and>
          m_sources m = Some (extract_sources_from_search (lib env) results) \<and>
          m \<in> set (messages db'))"
    unfolding Let_def
  proof (intro impI, elim conjE)
    let ?db1 = "fst (add_message db sid
                     \<lparr>mc_role = ''user'', mc_content = msg, mc_sources = None\<rparr> (Some uid))"
    let ?dss = "case dids of None \<Rightarrow> None
               | Some l \<Rightarrow> if l \<noteq> [] then Some (map str_uuid l) else None"
    let ?results = "search_documents (search_client env) msg (str_uuid uid) 5 ?dss"
    let ?ctx = "build_context_from_search (lib env) ?results ?dss"
    assume found: "get_session_by_id db sid (Some uid) = Some s"
      and msg: "msg \<noteq> []" "storable msg"
      and un: "\<forall>c. openai_client env = Some c \<longrightarrow>
          isl (complete c (completion_messages msg ?ctx
                 (build_conversation_history (get_session_messages ?db1 sid 20 0 (Some uid)))
                 ?dss))"
    from process_chat_message_fallback [OF found msg refl refl refl refl un]
    show "\<exists>db' m. process_chat_message env db uid sid msg dids = (db', Some m) \<and>
          m_role m = ''assistant'' \<and>
          m_content m = generate_fallback_openai_response msg ?ctx \<and>
          m_sources m = Some (extract_sources_from_search (lib env) ?results) \<and>
          m \<in> set (messages db')" .
  qed
qed

theorem completion_failure_falls_back_witness:
  "generate_openai_response (openai_client failing_services) ''When is the meeting?''
     ''No relevant documents found in your document library.'' [] None =
     Some (library_empty_answer ''When is the meeting?'') \<and>
   generate_chat_response failing_services ''When is the meeting?'' [] ''u1'' None =
     Some \<lparr>ar_content = Some (library_empty_answer ''When is the meeting?''), ar_sources = []\<rparr> \<and>
   (\<exists>db' m. process_chat_message failing_services example_db (UUID 10) (UUID 3)
               ''When is the meeting?'' None = (db', Some m) \<and>
      m_role m = ''assistant'' \<and>
      m_content m = library_empty_answer ''When is the meeting?'' \<and>
      m_sources m = Some [] \<and>
      m \<in> set (messages db'))"
proof -
  note t = completion_failure_falls_back [where env = failing_services
      and msg = "''When is the meeting?''"
      and ctx = "''No relevant documents found in your document library.''"
      and conversation = "[]" and ds = None and u = "''u1''" and history = "[]"
      and db = example_db and uid = "UUID 10" and sid = "UUID 3" and dids = None
      and s = "\<lparr>s_id = UUID 3, s_user_id = UUID 10, s_title = ''New Chat'', s_created_at = 6,
                s_updated_at = 6\<rparr>"]
  have un: "\<forall>c. openai_client failing_services = Some c \<longrightarrow> isl (complete c ms)" for ms
    using failing_services_unavailable by simp
  have ctx: "build_context_from_search (lib failing_services)
      (search_documents (search_client failing_services) ''When is the meeting?'' u 5 None) None =
      ''No relevant documents found in your document library.''" for u
    by (simp add: failing_services_def search_documents_def fallback_search_def
        build_context_from_search_def selected_def)
  have src: "extract_sources_from_search (lib failing_services)
      (search_documents (search_client failing_services) ''When is the meeting?'' u 5 None) = []" for u
    by (simp add: failing_services_def search_documents_def fallback_search_def
        extract_sources_from_search_def)
  have ans: "generate_fallback_openai_response ''When is the meeting?''
      ''No relevant documents found in your document library.'' =
      library_empty_answer ''When is the meeting?''"
    unfolding generate_fallback_openai_response_def
    using example_question_no_greeting library_marker_not_selected library_marker_recognised
    by simp
  have 1: "generate_openai_response (openai_client failing_services) ''When is the meeting?''
     ''No relevant documents found in your document library.'' [] None =
     Some (library_empty_answer ''When is the meeting?'')"
    using t [THEN conjunct1, THEN mp, OF un] ans
    unfolding fallback_rule by simp
  from t [THEN conjunct2, THEN conjunct2, THEN conjunct2, THEN conjunct1, unfolded Let_def,
      THEN mp, OF un]
  have 2: "generate_chat_response failing_services ''When is the meeting?'' [] ''u1'' None =
     Some \<lparr>ar_content = Some (library_empty_answer ''When is the meeting?''), ar_sources = []\<rparr>"
    unfolding ctx src ans .
  have h: "get_session_by_id example_db (UUID 3) (Some (UUID 10)) =
     Some \<lparr>s_id = UUID 3, s_user_id = UUID 10, s_title = ''New Chat'', s_created_at = 6, s_updated_at = 6\<rparr>
     \<and> ''When is the meeting?'' \<noteq> [] \<and> storable ''When is the meeting?'' \<and>
     (\<forall>c. openai_client failing_services = Some c \<longrightarrow> isl (complete c ms))" for ms
    using example_session_found un by (simp add: storable_def)
  from t [THEN conjunct2, THEN conjunct2, THEN conjunct2, THEN conjunct2, unfolded Let_def,
      THEN mp, OF h]
  have 3: "\<exists>db' m. process_chat_message failing_services example_db (UUID 10) (UUID 3)
               ''When is the meeting?'' None = (db', Some m) \<and>
      m_role m = ''assistant'' \<and>
      m_content m = library_empty_answer ''When is the meeting?'' \<and>
      m_sources m = Some [] \<and>
      m \<in> set (messages db')"
    by (simp add: ctx src ans)
  from 1 2 3 show ?thesis by (intro conjI)
qed

text \<open>
  Claim C6 at a session of 21 messages, written at times 1 to 21. The history that
  \<open>process_chat_message\<close> reads with limit 20 is the messages of times 1 to 20: the query
  orders by creation time ascending and then limits, so it keeps the oldest 20 and drops
  the newest. The completion service is then sent the messages of times 11 to 20, after
  the system prompt and before the message of the user.
\<close>

theorem history_is_oldest_twenty:
  "map m_created_at (messages long_session) = [1..<22] \<and>
   map m_created_at (get_session_messages long_session (UUID 1) 20 0 (Some (UUID 10))) = [1..<21] \<and>
   map lm_content (tl (completion_messages ''q'' ''c''
      (build_conversation_history (get_session_messages long_session (UUID 1) 20 0 (Some (UUID 10))))
      None)) =
     [''11'', ''12'', ''13'', ''14'', ''15'', ''16'', ''17'', ''18'', ''19'', ''20'', ''q'']"
  by code_simp

section \<open>Processing a document\<close>

lemma update_documents_ids:
  assumes "\<And>d. d_id (f d) = d_id d"
  shows "map d_id (documents (update_documents P f db)) = map d_id (documents db)"
  by (simp add: update_documents_def comp_def assms cong: map_cong)



lemma update_status_documents:
  "documents (fst (update_status db doc st u)) =
     map (\<lambda>d. if document_matches doc u d then d\<lparr>d_status := st, d_updated_at := clock db\<rparr> else d)
         (documents db)"
  by (simp add: update_status_def update_documents_def commit_def Let_def)


lemma update_status_marks:
  "(\<forall>d \<in> set (documents (fst (update_status db doc st None))). d_id d = doc \<longrightarrow> d_status d = st) \<and>
   map d_id (documents (fst (update_status db doc st None))) = map d_id (documents db)"
proof
  show "\<forall>d \<in> set (documents (fst (update_status db doc st None))). d_id d = doc \<longrightarrow> d_status d = st"
  proof (intro ballI impI)
    fix d assume "d \<in> set (documents (fst (update_status db doc st None)))" and id: "d_id d = doc"
    then obtain x where x: "x \<in> set (documents db)"
      and d: "d = (if document_matches doc None x then x\<lparr>d_status := st, d_updated_at := clock db\<rparr> else x)"
      unfolding update_status_documents by (auto simp: image_iff)
    show "d_status d = st"
    proof (cases "document_matches doc None x")
      case True
      with d show ?thesis by simp
    next
      case False
      with d have "d = x" by simp
      with id False show ?thesis by (simp add: document_matches_def)
    qed
  qed
  show "map d_id (documents (fst (update_status db doc st None))) = map d_id (documents db)"
    unfolding update_status_documents by (simp add: comp_def cong: map_cong)
qed


lemma documents_commit:
  "documents (commit db) = documents db"
  by (simp add: commit_def)

lemma update_keeps_ids:
  "map d_id (documents (fst (update db doc data u))) = map d_id (documents db)"
proof (cases "du_name data = None \<and> du_status data = None \<and> du_content data = None \<and> du_metadata data = None")
  case True
  then show ?thesis by (simp add: update_def)
next
  case False
  show ?thesis
  proof (cases "storable_opt (du_name data) \<and> storable_opt (du_status data) \<and>
      storable_opt (du_content data)")
  case refused: False
  with False show ?thesis unfolding update_def by (simp only: if_False if_True not_False_eq_True fst_conv)
next
  case True
  let ?f = "\<lambda>d. let d = (case du_name data of None \<Rightarrow> d | Some v \<Rightarrow> d\<lparr>d_name := v\<rparr>);
                   d = (case du_status data of None \<Rightarrow> d | Some v \<Rightarrow> d\<lparr>d_status := v\<rparr>);
                   d = (case du_content data of None \<Rightarrow> d | Some v \<Rightarrow> d\<lparr>d_content := Some v\<rparr>);
                   d = (case du_metadata data of None \<Rightarrow> d | Some v \<Rightarrow> d\<lparr>d_doc_metadata := Some v\<rparr>)
               in d"
  have f: "\<And>d. d_id (?f d) = d_id d"
    by (simp add: Let_def split: option.split)
  from False True have "fst (update db doc data u) =
      commit (update_documents (document_matches doc u) ?f db)"
    unfolding update_def by (simp only: if_False if_True simp_thms Let_def fst_conv)
  then show ?thesis
    using update_documents_ids [of ?f "document_matches doc u" db, OF f]
    by (simp only: documents_commit)
  qed
qed


lemma process_extract_raises:
  "extract_document_text env path ft = Inl e \<Longrightarrow>
     process_document_async env db doc path ft = (fst (update_status db doc ''error'' None), Inl e)"
  by (simp add: process_document_async_def)

lemma process_no_text:
  "extract_document_text env path ft = Inr None \<or> extract_document_text env path ft = Inr (Some []) \<Longrightarrow>
     process_document_async env db doc path ft = (fst (update_status db doc ''error'' None), Inr ())"
  by (auto simp: process_document_async_def)

lemma process_persist_raises:
  "extract_document_text env path ft = Inr (Some t) \<Longrightarrow> t \<noteq> [] \<Longrightarrow> persist_error env = Some e \<Longrightarrow>
     process_document_async env db doc path ft = (fst (update_status db doc ''error'' None), Inl e)"
  by (simp add: process_document_async_def)

lemma process_embeddings_raise:
  "extract_document_text env path ft = Inr (Some t) \<Longrightarrow> t \<noteq> [] \<Longrightarrow> persist_error env = None \<Longrightarrow>
   create_document_embeddings env t = Inl e \<Longrightarrow>
     process_document_async env db doc path ft =
       (fst (update_status
               (fst (update db doc \<lparr>du_name = None, du_status = Some ''ready'',
                                     du_content = Some t, du_metadata = None\<rparr> None))
               doc ''error'' None), Inl e)"
  by (simp add: process_document_async_def)

lemma process_index_raises:
  "extract_document_text env path ft = Inr (Some t) \<Longrightarrow> t \<noteq> [] \<Longrightarrow> persist_error env = None \<Longrightarrow>
   create_document_embeddings env t = Inr emb \<Longrightarrow>
   get_by_id (fst (update db doc \<lparr>du_name = None, du_status = Some ''ready'',
                                   du_content = Some t, du_metadata = None\<rparr> None)) doc None = Some d \<Longrightarrow>
   index_document_in_search env (str_uuid (d_id d)) (d_name d) t
      (case d_doc_metadata d of None \<Rightarrow> JDict [] | Some m \<Rightarrow> if truthy m then m else JDict [])
      (str_uuid (d_user_id d)) = Inl e \<Longrightarrow>
     process_document_async env db doc path ft =
       (fst (update_status
               (fst (update db doc \<lparr>du_name = None, du_status = Some ''ready'',
                                     du_content = Some t, du_metadata = None\<rparr> None))
               doc ''error'' None), Inl e)"
  by (simp add: process_document_async_def)

lemma process_returns:
  "extract_document_text env path ft = Inr (Some t) \<Longrightarrow> t \<noteq> [] \<Longrightarrow> persist_error env = None \<Longrightarrow>
   create_document_embeddings env t = Inr emb \<Longrightarrow>
   get_by_id (fst (update db doc \<lparr>du_name = None, du_status = Some ''ready'',
                                   du_content = Some t, du_metadata = None\<rparr> None)) doc None = None \<or>
   (\<exists>d ok. get_by_id (fst (update db doc \<lparr>du_name = None, du_status = Some ''ready'',
                                   du_content = Some t, du_metadata = None\<rparr> None)) doc None = Some d \<and>
      index_document_in_search env (str_uuid (d_id d)) (d_name d) t
        (case d_doc_metadata d of None \<Rightarrow> JDict [] | Some m \<Rightarrow> if truthy m then m else JDict [])
        (str_uuid (d_user_id d)) = Inr ok) \<Longrightarrow>
     snd (process_document_async env db doc path ft) = Inr ()"
  by (auto simp: process_document_async_def)


lemma process_document_async_raised:
  assumes r: "process_document_async env db doc path ft = (db', Inl e)"
  shows "(\<forall>d \<in> set (documents db'). d_id d = doc \<longrightarrow> d_status d = ''error'') \<and>
         map d_id (documents db') = map d_id (documents db)"
proof -
  let ?data = "\<lparr>du_name = None, du_status = Some ''ready'', du_content = Some t, du_metadata = None\<rparr>"
  have "db' = fst (update_status db doc ''error'' None) \<or>
        (\<exists>data. db' = fst (update_status (fst (update db doc data None)) doc ''error'' None))"
  proof (cases "extract_document_text env path ft")
    case (Inl e')
    from process_extract_raises [OF this] r show ?thesis by simp
  next
    case (Inr text_content)
    show ?thesis
    proof (cases "text_content = None \<or> text_content = Some []")
      case True
      with Inr process_no_text [of env path ft db doc] r show ?thesis by auto
    next
      case False
      then obtain t where t: "text_content = Some t" "t \<noteq> []" by auto
      with Inr have ex: "extract_document_text env path ft = Inr (Some t)" by simp
      show ?thesis
      proof (cases "persist_error env")
        case (Some e')
        from process_persist_raises [OF ex t(2) this] r show ?thesis by simp
      next
        case None
        show ?thesis
        proof (cases "create_document_embeddings env t")
          case (Inl e')
          from process_embeddings_raise [OF ex t(2) None this] r show ?thesis by auto
        next
          case emb: (Inr embeddings)
          let ?db1 = "fst (update db doc \<lparr>du_name = None, du_status = Some ''ready'',
                                   du_content = Some t, du_metadata = None\<rparr> None)"
          show ?thesis
          proof (cases "get_by_id ?db1 doc None")
            case None': None
            from None' have "snd (process_document_async env db doc path ft) = Inr ()"
              using process_returns [OF ex t(2) None emb, of db doc] by blast
            with r show ?thesis by simp
          next
            case (Some d)
            show ?thesis
            proof (cases "index_document_in_search env (str_uuid (d_id d)) (d_name d) t
                (case d_doc_metadata d of None \<Rightarrow> JDict [] | Some m \<Rightarrow> if truthy m then m else JDict [])
                (str_uuid (d_user_id d))")
              case (Inl e')
              from process_index_raises [OF ex t(2) None emb Some this] r show ?thesis by auto
            next
              case (Inr ok)
              with Some have "\<exists>d ok. get_by_id ?db1 doc None = Some d \<and>
                index_document_in_search env (str_uuid (d_id d)) (d_name d) t
                  (case d_doc_metadata d of None \<Rightarrow> JDict [] | Some m \<Rightarrow> if truthy m then m else JDict [])
                  (str_uuid (d_user_id d)) = Inr ok" by blast
              then have "snd (process_document_async env db doc path ft) = Inr ()"
                using process_returns [OF ex t(2) None emb, of db doc] by blast
              with r show ?thesis by simp
            qed
          qed
        qed
      qed
    qed
  qed
  then show ?thesis
  proof (elim disjE exE)
    assume "db' = fst (update_status db doc ''error'' None)"
    then show ?thesis using update_status_marks [of db doc "''error''"] by simp
  next
    fix data assume "db' = fst (update_status (fst (update db doc data None)) doc ''error'' None)"
    then show ?thesis
      using update_status_marks [of "fst (update db doc data None)" doc "''error''"]
        update_keeps_ids [of db doc data None] by simp
  qed
qed

lemma upload_document_processing:
  assumes "content_type file = Some t" "t \<in> set (ALLOWED_FILE_TYPES cfg)"
    and "length (file_content file) \<le> MAX_FILE_SIZE cfg"
    and "save_file env (file_content file) (or_else (filename file) ''unknown'') u = Some p" "p \<noteq> []"
    and "DocumentCreate (or_else name (or_else (filename file) ''Untitled Document''))
           (or_else (filename file) ''unknown'') (or_else (Some t) ''application/octet-stream'')
           (length (file_content file)) p = Some dd"
  shows "upload_document env cfg db file name u =
           (case process_document_async env (fst (create db u dd)) (UUID (next_uuid db)) p t of
              (db', Inl e) \<Rightarrow> (db', Inl (HTTPException 500 ''Failed to upload document''))
            | (db', Inr x) \<Rightarrow>
                (db', Inr \<lparr>up_message = ''Document uploaded successfully'',
                           up_document_id = UUID (next_uuid db), up_status = ''processing''\<rparr>))"
  using assms
  by (simp add: upload_document_def create_def Let_def split: prod.split sum.split)

lemma reprocess_document_processing:
  assumes "get_by_id db doc (Some u) = Some d"
  shows "reprocess_document env db doc u =
           (case process_document_async env (fst (update_status db doc ''processing'' (Some u))) doc
                   (d_storage_path d) (d_file_type d) of
              (db', Inl e) \<Rightarrow> (db', Inl (HTTPException 500 ''Failed to reprocess document''))
            | (db', Inr x) \<Rightarrow> (db', Inr (get_by_id db' doc (Some u))))"
  using assms
  by (simp add: reprocess_document_def Let_def split: prod.split sum.split)


text \<open>
  Claim C3, as amended. An error that leaves step 1 (extraction), step 2 (the update that
  stores text and status) or step 3 (embedding, indexing) leaves \<open>_process_document_async\<close>
  as well: its handler sets the status of the document to \<open>error\<close> and raises the error
  again. The upload and the reprocess operation that started the run answer it with
  500, \<open>Failed to upload document\<close> and \<open>Failed to reprocess document\<close>.
\<close>

theorem processing_error_is_reraised:
  "(extract_document_text env path ft = Inl e \<longrightarrow>
      snd (process_document_async env db doc path ft) = Inl e) \<and>
   (\<forall>t. extract_document_text env path ft = Inr (Some t) \<and> t \<noteq> [] \<and>
        persist_error env = Some e \<longrightarrow>
      snd (process_document_async env db doc path ft) = Inl e) \<and>
   (\<forall>t. extract_document_text env path ft = Inr (Some t) \<and> t \<noteq> [] \<and>
        persist_error env = None \<and> create_document_embeddings env t = Inl e \<longrightarrow>
      snd (process_document_async env db doc path ft) = Inl e) \<and>
   (\<forall>t emb d. extract_document_text env path ft = Inr (Some t) \<and> t \<noteq> [] \<and>
        persist_error env = None \<and> create_document_embeddings env t = Inr emb \<and>
        get_by_id (fst (update db doc \<lparr>du_name = None, du_status = Some ''ready'',
                          du_content = Some t, du_metadata = None\<rparr> None)) doc None = Some d \<and>
        index_document_in_search env (str_uuid (d_id d)) (d_name d) t
          (case d_doc_metadata d of None \<Rightarrow> JDict [] | Some m \<Rightarrow> if truthy m then m else JDict [])
          (str_uuid (d_user_id d)) = Inl e \<longrightarrow>
      snd (process_document_async env db doc path ft) = Inl e) \<and>
   (\<forall>db'. process_document_async env db doc path ft = (db', Inl e) \<longrightarrow>
      (\<forall>d \<in> set (documents db'). d_id d = doc \<longrightarrow> d_status d = ''error'') \<and>
      map d_id (documents db') = map d_id (documents db)) \<and>
   (\<forall>t p dd db'.
      content_type file = Some t \<and> t \<in> set (ALLOWED_FILE_TYPES cfg) \<and>
      length (file_content file) \<le> MAX_FILE_SIZE cfg \<and>
      save_file env (file_content file) (or_else (filename file) ''unknown'') u = Some p \<and> p \<noteq> [] \<and>
      DocumentCreate (or_else name (or_else (filename file) ''Untitled Document''))
           (or_else (filename file) ''unknown'') (or_else (Some t) ''application/octet-stream'')
           (length (file_content file)) p = Some dd \<and>
      process_document_async env (fst (create db u dd)) (UUID (next_uuid db)) p t = (db', Inl e) \<longrightarrow>
      upload_document env cfg db file name u =
        (db', Inl (HTTPException 500 ''Failed to upload document''))) \<and>
   (\<forall>d db'.
      get_by_id db doc (Some u) = Some d \<and>
      process_document_async env (fst (update_status db doc ''processing'' (Some u))) doc
        (d_storage_path d) (d_file_type d) = (db', Inl e) \<longrightarrow>
      reprocess_document env db doc u =
        (db', Inl (HTTPException 500 ''Failed to reprocess document'')))"
proof (intro conjI allI impI)
  assume "extract_document_text env path ft = Inl e"
  from process_extract_raises [OF this]
  show "snd (process_document_async env db doc path ft) = Inl e" by simp
next
  fix t assume "extract_document_text env path ft = Inr (Some t) \<and> t \<noteq> [] \<and> persist_error env = Some e"
  then show "snd (process_document_async env db doc path ft) = Inl e"
    using process_persist_raises [of env path ft t e db doc] by simp
next
  fix t assume "extract_document_text env path ft = Inr (Some t) \<and> t \<noteq> [] \<and>
        persist_error env = None \<and> create_document_embeddings env t = Inl e"
  then show "snd (process_document_async env db doc path ft) = Inl e"
    using process_embeddings_raise [of env path ft t e db doc] by simp
next
  fix t emb d
  assume "extract_document_text env path ft = Inr (Some t) \<and> t \<noteq> [] \<and>
        persist_error env = None \<and> create_document_embeddings env t = Inr emb \<and>
        get_by_id (fst (update db doc \<lparr>du_name = None, du_status = Some ''ready'',
                          du_content = Some t, du_metadata = None\<rparr> None)) doc None = Some d \<and>
        index_document_in_search env (str_uuid (d_id d)) (d_name d) t
          (case d_doc_metadata d of None \<Rightarrow> JDict [] | Some m \<Rightarrow> if truthy m then m else JDict [])
          (str_uuid (d_user_id d)) = Inl e"
  then show "snd (process_document_async env db doc path ft) = Inl e"
    using process_index_raises [of env path ft t emb db doc d e] by simp
next
  fix db' assume "process_document_async env db doc path ft = (db', Inl e)"
  from process_document_async_raised [OF this]
  show "\<forall>d \<in> set (documents db'). d_id d = doc \<longrightarrow> d_status d = ''error''"
    and "map d_id (documents db') = map d_id (documents db)" by simp_all
next
  fix t p dd db'
  assume a: "content_type file = Some t \<and> t \<in> set (ALLOWED_FILE_TYPES cfg) \<and>
      length (file_content file) \<le> MAX_FILE_SIZE cfg \<and>
      save_file env (file_content file) (or_else (filename file) ''unknown'') u = Some p \<and> p \<noteq> [] \<and>
      DocumentCreate (or_else name (or_else (filename file) ''Untitled Document''))
           (or_else (filename file) ''unknown'') (or_else (Some t) ''application/octet-stream'')
           (length (file_content file)) p = Some dd \<and>
      process_document_async env (fst (create db u dd)) (UUID (next_uuid db)) p t = (db', Inl e)"
  then have "upload_document env cfg db file name u =
           (case process_document_async env (fst (create db u dd)) (UUID (next_uuid db)) p t of
              (db', Inl e) \<Rightarrow> (db', Inl (HTTPException 500 ''Failed to upload document''))
            | (db', Inr x) \<Rightarrow>
                (db', Inr \<lparr>up_message = ''Document uploaded successfully'',
                           up_document_id = UUID (next_uuid db), up_status = ''processing''\<rparr>))"
    by (intro upload_document_processing) simp_all
  with a show "upload_document env cfg db file name u =
        (db', Inl (HTTPException 500 ''Failed to upload document''))" by simp
next
  fix d db'
  assume a: "get_by_id db doc (Some u) = Some d \<and>
      process_document_async env (fst (update_status db doc ''processing'' (Some u))) doc
        (d_storage_path d) (d_file_type d) = (db', Inl e)"
  then have "get_by_id db doc (Some u) = Some d" by simp
  from reprocess_document_processing [OF this, of env] a
  show "reprocess_document env db doc u =
        (db', Inl (HTTPException 500 ''Failed to reprocess document''))" by simp
qed


lemma example_upload_reaches_processing:
  "content_type example_file = Some ''text/plain'' \<and>
   ''text/plain'' \<in> set (ALLOWED_FILE_TYPES default_settings) \<and>
   length (file_content example_file) \<le> MAX_FILE_SIZE default_settings \<and>
   save_file raising_env (file_content example_file) (or_else (filename example_file) ''unknown'')
     (UUID 10) = Some ''uploads/notes.txt'' \<and>
   ''uploads/notes.txt'' \<noteq> [] \<and>
   DocumentCreate (or_else None (or_else (filename example_file) ''Untitled Document''))
     (or_else (filename example_file) ''unknown'') (or_else (Some ''text/plain'') ''application/octet-stream'')
     (length (file_content example_file)) ''uploads/notes.txt'' =
     Some \<lparr>dc_name = ''notes.txt'', dc_file_type = ''text/plain'', dc_file_size = 22,
           dc_original_name = ''notes.txt'', dc_storage_path = ''uploads/notes.txt'',
           dc_content = None, dc_metadata = None\<rparr>"
  by (simp add: example_file_def default_settings_def raising_env_def or_else_def DocumentCreate_def)

lemma raising_env_steps:
  "extract_document_text raising_env path ft = Inr (Some ''Meeting at 3pm Tuesday'') \<and>
   ''Meeting at 3pm Tuesday'' \<noteq> [] \<and>
   persist_error raising_env = Some (Exception ''connection closed'')"
  by (simp add: raising_env_def)

lemma example_upload_fails:
  "\<exists>db'. upload_document raising_env default_settings example_db example_file None (UUID 10) =
      (db', Inl (HTTPException 500 ''Failed to upload document''))"
proof -
  note p = example_upload_reaches_processing
  have "upload_document raising_env default_settings example_db example_file None (UUID 10) =
      (case process_document_async raising_env
              (fst (create example_db (UUID 10)
                 \<lparr>dc_name = ''notes.txt'', dc_file_type = ''text/plain'', dc_file_size = 22,
                  dc_original_name = ''notes.txt'', dc_storage_path = ''uploads/notes.txt'',
                  dc_content = None, dc_metadata = None\<rparr>))
              (UUID (next_uuid example_db)) ''uploads/notes.txt'' ''text/plain'' of
         (db', Inl e) \<Rightarrow> (db', Inl (HTTPException 500 ''Failed to upload document''))
       | (db', Inr x) \<Rightarrow>
           (db', Inr \<lparr>up_message = ''Document uploaded successfully'',
                      up_document_id = UUID (next_uuid example_db), up_status = ''processing''\<rparr>))"
    by (rule upload_document_processing) (simp_all add: p)
  then show ?thesis
    using raising_env_steps
    by (simp add: process_persist_raises [of raising_env _ _ "''Meeting at 3pm Tuesday''"])
qed

text \<open>
  The claim as stated, that the error does not reach the caller of the upload, fails:
  when the update of step 2 raises, the upload answers 500.
\<close>

theorem upload_surfaces_processing_error:
  "persist_error raising_env = Some (Exception ''connection closed'') \<and>
   snd (upload_document raising_env default_settings example_db example_file None (UUID 10)) =
     Inl (HTTPException 500 ''Failed to upload document'')"
  using example_upload_fails raising_env_steps by auto


lemma single_document_status:
  assumes "\<forall>d \<in> set ds. d_id d = i \<longrightarrow> d_status d = st" and "map d_id ds = [i]"
  shows "map d_status ds = [st]"
proof -
  from assms(2) obtain d where "ds = [d]" "d_id d = i" by (cases ds) auto
  with assms(1) show ?thesis by simp
qed

lemma create_adds_id:
  "map d_id (documents (fst (create db u dd))) = map d_id (documents db) @ [UUID (next_uuid db)]"
  by (simp add: create_def commit_def Let_def)

lemma library_document_found:
  "get_by_id library_db (UUID 50) (Some (UUID 10)) = Some example_document"
  by (simp add: library_db_def get_by_id_def document_matches_def scalar_one_or_none_def
      example_document_def)

lemma library_document_after_update:
  "\<exists>d. get_by_id (fst (update library_db (UUID 50) \<lparr>du_name = None, du_status = Some ''ready'',
                          du_content = Some ''Meeting at 3pm Tuesday'', du_metadata = None\<rparr> None))
         (UUID 50) None = Some d"
  by (simp add: library_db_def update_def update_documents_def commit_def Let_def get_by_id_def
      document_matches_def scalar_one_or_none_def example_document_def)

theorem processing_error_is_reraised_witness:
  "snd (process_document_async unreadable_env library_db (UUID 50) ''uploads/notes.txt'' ''text/plain'') =
     Inl (Exception ''unreadable'') \<and>
   snd (process_document_async raising_env library_db (UUID 50) ''uploads/notes.txt'' ''text/plain'') =
     Inl (Exception ''connection closed'') \<and>
   snd (process_document_async embedding_env library_db (UUID 50) ''uploads/notes.txt'' ''text/plain'') =
     Inl (Exception ''embedding failed'') \<and>
   snd (process_document_async indexing_env library_db (UUID 50) ''uploads/notes.txt'' ''text/plain'') =
     Inl (Exception ''index failed'') \<and>
   (\<exists>db'. process_document_async raising_env library_db (UUID 50) ''uploads/notes.txt'' ''text/plain'' =
            (db', Inl (Exception ''connection closed'')) \<and>
          map d_status (documents db') = [''error'']) \<and>
   (\<exists>db'. upload_document raising_env default_settings example_db example_file None (UUID 10) =
            (db', Inl (HTTPException 500 ''Failed to upload document'')) \<and>
          map d_status (documents db') = [''error'']) \<and>
   (\<exists>db'. reprocess_document raising_env library_db (UUID 50) (UUID 10) =
            (db', Inl (HTTPException 500 ''Failed to reprocess document'')) \<and>
          map d_status (documents db') = [''error''])"
proof -
  let ?p = "''uploads/notes.txt''" and ?ft = "''text/plain''" and ?t = "''Meeting at 3pm Tuesday''"
  let ?closed = "Exception ''connection closed''"
  have w1: "snd (process_document_async unreadable_env library_db (UUID 50) ?p ?ft) =
     Inl (Exception ''unreadable'')"
  proof -
    have h: "extract_document_text unreadable_env ?p ?ft = Inl (Exception ''unreadable'')"
      by (simp add: unreadable_env_def)
    from processing_error_is_reraised [of unreadable_env ?p ?ft "Exception ''unreadable''" library_db "UUID 50",
        THEN conjunct1, THEN mp, OF h]
    show ?thesis .
  qed
  have w2: "snd (process_document_async raising_env library_db (UUID 50) ?p ?ft) = Inl ?closed"
  proof -
    have h: "extract_document_text raising_env ?p ?ft = Inr (Some ?t) \<and> ?t \<noteq> [] \<and>
        persist_error raising_env = Some ?closed"
      by (simp add: raising_env_def)
    from processing_error_is_reraised [of raising_env ?p ?ft ?closed library_db "UUID 50",
        THEN conjunct2, THEN conjunct1, THEN spec, THEN mp, OF h]
    show ?thesis .
  qed
  have w3: "snd (process_document_async embedding_env library_db (UUID 50) ?p ?ft) =
     Inl (Exception ''embedding failed'')"
  proof -
    have h: "extract_document_text embedding_env ?p ?ft = Inr (Some ?t) \<and> ?t \<noteq> [] \<and>
        persist_error embedding_env = None \<and>
        create_document_embeddings embedding_env ?t = Inl (Exception ''embedding failed'')"
      by (simp add: embedding_env_def raising_env_def)
    from processing_error_is_reraised [of embedding_env ?p ?ft "Exception ''embedding failed''" library_db "UUID 50",
        THEN conjunct2, THEN conjunct2, THEN conjunct1, THEN spec, THEN mp, OF h]
    show ?thesis .
  qed
  have w4: "snd (process_document_async indexing_env library_db (UUID 50) ?p ?ft) =
     Inl (Exception ''index failed'')"
  proof -
    from library_document_after_update obtain d where
      d: "get_by_id (fst (update library_db (UUID 50) \<lparr>du_name = None, du_status = Some ''ready'',
                          du_content = Some ?t, du_metadata = None\<rparr> None)) (UUID 50) None = Some d"
      by blast
    have h: "extract_document_text indexing_env ?p ?ft = Inr (Some ?t) \<and> ?t \<noteq> [] \<and>
        persist_error indexing_env = None \<and> create_document_embeddings indexing_env ?t = Inr None \<and>
        get_by_id (fst (update library_db (UUID 50) \<lparr>du_name = None, du_status = Some ''ready'',
                          du_content = Some ?t, du_metadata = None\<rparr> None)) (UUID 50) None = Some d \<and>
        index_document_in_search indexing_env (str_uuid (d_id d)) (d_name d) ?t
          (case d_doc_metadata d of None \<Rightarrow> JDict [] | Some m \<Rightarrow> if truthy m then m else JDict [])
          (str_uuid (d_user_id d)) = Inl (Exception ''index failed'')"
      using d by (simp add: indexing_env_def raising_env_def)
    from processing_error_is_reraised [of indexing_env ?p ?ft "Exception ''index failed''" library_db "UUID 50",
        THEN conjunct2, THEN conjunct2, THEN conjunct2, THEN conjunct1,
        THEN spec, THEN spec, THEN spec, THEN mp, OF h]
    show ?thesis .
  qed
  have w5: "\<exists>db'. process_document_async raising_env library_db (UUID 50) ?p ?ft = (db', Inl ?closed) \<and>
          map d_status (documents db') = [''error'']"
  proof -
    from w2 obtain db' where r: "process_document_async raising_env library_db (UUID 50) ?p ?ft =
        (db', Inl ?closed)"
      by (cases "process_document_async raising_env library_db (UUID 50) ?p ?ft") auto
    from processing_error_is_reraised [of raising_env ?p ?ft ?closed library_db "UUID 50",
        THEN conjunct2, THEN conjunct2, THEN conjunct2, THEN conjunct2, THEN conjunct1,
        THEN spec, THEN mp, OF r]
    have "\<forall>d \<in> set (documents db'). d_id d = UUID 50 \<longrightarrow> d_status d = ''error''"
      and "map d_id (documents db') = [UUID 50]"
      by (simp_all add: library_db_def example_document_def)
    then have "map d_status (documents db') = [''error'']" by (rule single_document_status)
    with r show ?thesis by (intro exI [of _ db'] conjI)
  qed
  have w6: "\<exists>db'. upload_document raising_env default_settings example_db example_file None (UUID 10) =
            (db', Inl (HTTPException 500 ''Failed to upload document'')) \<and>
          map d_status (documents db') = [''error'']"
  proof -
    let ?dd = "\<lparr>dc_name = ''notes.txt'', dc_file_type = ''text/plain'', dc_file_size = 22,
           dc_original_name = ''notes.txt'', dc_storage_path = ''uploads/notes.txt'',
           dc_content = None, dc_metadata = None\<rparr>"
    let ?db1 = "fst (create example_db (UUID 10) ?dd)"
    have "snd (process_document_async raising_env ?db1 (UUID (next_uuid example_db)) ?p ?ft) = Inl ?closed"
      using process_persist_raises [of raising_env ?p ?ft ?t ?closed ?db1] raising_env_steps by simp
    then obtain db' where r: "process_document_async raising_env ?db1 (UUID (next_uuid example_db)) ?p ?ft =
        (db', Inl ?closed)"
      by (cases "process_document_async raising_env ?db1 (UUID (next_uuid example_db)) ?p ?ft") auto
    from example_upload_reaches_processing r
    have h: "content_type example_file = Some ?ft \<and> ?ft \<in> set (ALLOWED_FILE_TYPES default_settings) \<and>
      length (file_content example_file) \<le> MAX_FILE_SIZE default_settings \<and>
      save_file raising_env (file_content example_file) (or_else (filename example_file) ''unknown'') (UUID 10) = Some ?p \<and>
      ?p \<noteq> [] \<and>
      DocumentCreate (or_else None (or_else (filename example_file) ''Untitled Document''))
           (or_else (filename example_file) ''unknown'') (or_else (Some ?ft) ''application/octet-stream'')
           (length (file_content example_file)) ?p = Some ?dd \<and>
      process_document_async raising_env ?db1 (UUID (next_uuid example_db)) ?p ?ft = (db', Inl ?closed)"
      by (intro conjI) simp_all
    note t = processing_error_is_reraised [of raising_env ?p ?ft ?closed ?db1 "UUID (next_uuid example_db)"
        example_file default_settings "UUID 10" None]
    from processing_error_is_reraised [of raising_env _ _ ?closed example_db _
        example_file default_settings "UUID 10" None,
        THEN conjunct2, THEN conjunct2, THEN conjunct2, THEN conjunct2, THEN conjunct2, THEN conjunct1,
        THEN spec, THEN spec, THEN spec, THEN spec, THEN mp, OF h]
    have up: "upload_document raising_env default_settings example_db example_file None (UUID 10) =
        (db', Inl (HTTPException 500 ''Failed to upload document''))" .
    from t [THEN conjunct2, THEN conjunct2, THEN conjunct2, THEN conjunct2, THEN conjunct1,
        THEN spec, THEN mp, OF r]
    have "\<forall>d \<in> set (documents db'). d_id d = UUID 100 \<longrightarrow> d_status d = ''error''"
      and "map d_id (documents db') = [UUID 100]"
      by (simp_all add: create_adds_id example_db_def)
    then have "map d_status (documents db') = [''error'']" by (rule single_document_status)
    with up show ?thesis by (intro exI [of _ db'] conjI)
  qed
  have w7: "\<exists>db'. reprocess_document raising_env library_db (UUID 50) (UUID 10) =
            (db', Inl (HTTPException 500 ''Failed to reprocess document'')) \<and>
          map d_status (documents db') = [''error'']"
  proof -
    let ?db1 = "fst (update_status library_db (UUID 50) ''processing'' (Some (UUID 10)))"
    have "snd (process_document_async raising_env ?db1 (UUID 50)
        (d_storage_path example_document) (d_file_type example_document)) = Inl ?closed"
      using process_persist_raises [of raising_env _ _ ?t ?closed ?db1] raising_env_steps by simp
    then obtain db' where r: "process_document_async raising_env ?db1 (UUID 50)
        (d_storage_path example_document) (d_file_type example_document) = (db', Inl ?closed)"
      by (cases "process_document_async raising_env ?db1 (UUID 50)
        (d_storage_path example_document) (d_file_type example_document)") auto
    with library_document_found
    have h: "get_by_id library_db (UUID 50) (Some (UUID 10)) = Some example_document \<and>
      process_document_async raising_env ?db1 (UUID 50)
        (d_storage_path example_document) (d_file_type example_document) = (db', Inl ?closed)"
      by (intro conjI)
    from processing_error_is_reraised [of raising_env _ _ ?closed library_db "UUID 50" _ _ "UUID 10",
        THEN conjunct2, THEN conjunct2, THEN conjunct2, THEN conjunct2, THEN conjunct2, THEN conjunct2,
        THEN spec, THEN spec, THEN mp, OF h]
    have re: "reprocess_document raising_env library_db (UUID 50) (UUID 10) =
            (db', Inl (HTTPException 500 ''Failed to reprocess document''))" .
    from processing_error_is_reraised [of raising_env _ _ ?closed ?db1 "UUID 50",
        THEN conjunct2, THEN conjunct2, THEN conjunct2, THEN conjunct2, THEN conjunct1,
        THEN spec, THEN mp, OF r]
    have "\<forall>d \<in> set (documents db'). d_id d = UUID 50 \<longrightarrow> d_status d = ''error''"
      and "map d_id (documents db') = [UUID 50]"
      using update_status_documents [of library_db "UUID 50" "''processing''" "Some (UUID 10)"]
      by (simp_all add: library_db_def example_document_def)
    then have "map d_status (documents db') = [''error'']" by (rule single_document_status)
    with re show ?thesis by (intro exI [of _ db'] conjI)
  qed
  from w1 w2 w3 w4 w5 w6 w7 show ?thesis by (intro conjI)
qed

end
